theory Spec2Isabelle
  imports Complex_Main
begin

section \<open>JavaScript values\<close>

text \<open>
  The three source files are a React Native client (\<^verbatim>\<open>src/index.tsx\<close>, the home screen;
  \<^verbatim>\<open>src/unnamed/part_001\<close>, the week screen) and an Express server
  (\<^verbatim>\<open>src/unnamed/part_000\<close>). They lean on the built-in operations of the language:
  \<^verbatim>\<open>parseInt\<close>, \<^verbatim>\<open>Number\<close>, \<^verbatim>\<open>String\<close>, \<^verbatim>\<open>Math.round\<close>, \<^verbatim>\<open>JSON.parse\<close>, \<^verbatim>\<open>Date\<close>, string
  methods and two regular expressions. This section models those operations after
  ECMA-262, the rest of the theory the functions of the repository.

  A string is a sequence of UTF-16 code units, each a number from 0 to 65535. Literals
  are written \<open>js ''...''\<close>.
\<close>

type_synonym jsstring = "int list"

abbreviation js :: "string \<Rightarrow> jsstring" where
  "js s \<equiv> map (of_char :: char \<Rightarrow> int) s"

text \<open>
  White space and line terminators of ECMA-262: what \<^verbatim>\<open>trim\<close>, \<^verbatim>\<open>\s\<close>, \<^verbatim>\<open>parseInt\<close> and
  \<^verbatim>\<open>Number\<close> skip. TAB, LF, VT, FF, CR, SP, NBSP, U+1680, U+2000 to U+200A, U+2028, U+2029,
  U+202F, U+205F, U+3000 and U+FEFF.
\<close>

definition is_ws :: "int \<Rightarrow> bool" where
  "is_ws c \<longleftrightarrow> c \<in> {9, 10, 11, 12, 13, 32, 160, 5760, 8232, 8233, 8239, 8287, 12288, 65279}
     \<or> (8192 \<le> c \<and> c \<le> 8202)"

definition trim :: "jsstring \<Rightarrow> jsstring" where
  "trim s = rev (dropWhile is_ws (rev (dropWhile is_ws s)))"

definition is_digit :: "int \<Rightarrow> bool" where
  "is_digit c \<longleftrightarrow> 48 \<le> c \<and> c \<le> 57"

definition digits_val :: "jsstring \<Rightarrow> int" where
  "digits_val ds = foldl (\<lambda>a c. 10 * a + (c - 48)) 0 ds"

subsection \<open>Numbers\<close>

text \<open>
  A Number is an IEEE 754 binary64 value: not-a-number, an infinity, or a finite value,
  kept here as the rational it denotes. The two zeros are one value \<open>Fin 0\<close>: nothing in
  this program tells them apart (both are falsy, both print as \<^verbatim>\<open>0\<close>).
\<close>

datatype jsnum = NaN | Fin rat | PInf | NInf

text \<open>\<open>ndigits b n\<close> is the number of base-\<open>b\<close> digits of \<open>n\<close>, and \<open>floor_log b x\<close> the
  integer part of the base-\<open>b\<close> logarithm of a positive rational.\<close>

function ndigits :: "int \<Rightarrow> int \<Rightarrow> int" where
  "ndigits b n = (if n \<le> 0 \<or> b < 2 then 0 else 1 + ndigits b (n div b))"
  by pat_completeness auto
termination
  by (relation "measure (\<lambda>(b, n). nat n)") (auto simp: int_div_less_self)

declare ndigits.simps [simp del]

definition floor_log :: "int \<Rightarrow> rat \<Rightarrow> int" where
  "floor_log b x = (if 1 \<le> x then ndigits b \<lfloor>x\<rfloor> - 1 else - ndigits b (\<lceil>1 / x\<rceil> - 1))"

definition round_half_even :: "rat \<Rightarrow> int" where
  "round_half_even x = (let f = \<lfloor>x\<rfloor>; r = x - of_int f
     in if r < 1 / 2 then f else if 1 / 2 < r then f + 1 else if even f then f else f + 1)"

text \<open>
  \<open>d64 x\<close> is the Number value for the real \<open>x\<close>: the nearest binary64 value, ties to the
  even significand. The spacing of the values around \<open>x\<close> is \<open>u = 2^(e - 52)\<close> for \<open>e\<close> the
  binary exponent of \<open>x\<close>, at least \<open>-1022\<close>; \<open>n\<close> is the significand, at most \<open>2^53\<close>. The
  result is an infinity when it reaches \<open>2^1024\<close>: when \<open>e\<close> is 1024 or more, or \<open>e\<close> is 1023
  and the significand rounds up to \<open>2^53 = 9007199254740992\<close>.
\<close>

definition d64 :: "rat \<Rightarrow> jsnum" where
  "d64 x = (if x = 0 then Fin 0 else
     let a = \<bar>x\<bar>;
         e = max (floor_log 2 a) (- 1022);
         u = 2 powi (e - 52);
         n = round_half_even (a / u)
     in if 1024 \<le> e \<or> (e = 1023 \<and> n = 9007199254740992)
        then (if x < 0 then NInf else PInf)
        else Fin (if x < 0 then - (of_int n * u) else of_int n * u))"

text \<open>The \<^verbatim>\<open>+\<close> of two Numbers.\<close>

fun js_add :: "jsnum \<Rightarrow> jsnum \<Rightarrow> jsnum" where
  "js_add NaN _ = NaN"
| "js_add _ NaN = NaN"
| "js_add PInf NInf = NaN"
| "js_add NInf PInf = NaN"
| "js_add PInf _ = PInf"
| "js_add _ PInf = PInf"
| "js_add NInf _ = NInf"
| "js_add _ NInf = NInf"
| "js_add (Fin a) (Fin b) = d64 (a + b)"

text \<open>
  \<^verbatim>\<open>parseInt(s, 10)\<close>: skip leading white space, read one optional sign, then the longest run
  of decimal digits; no digit gives \<open>NaN\<close>, and whatever follows the digits is ignored.
\<close>

definition parseInt10 :: "jsstring \<Rightarrow> jsnum" where
  "parseInt10 inp =
    (let s = dropWhile is_ws inp;
         neg = (case s of [] \<Rightarrow> False | c # _ \<Rightarrow> c = 45);
         s' = (case s of [] \<Rightarrow> [] | c # cs \<Rightarrow> if c = 43 \<or> c = 45 then cs else s);
         z = takeWhile is_digit s'
     in if z = [] then NaN
        else d64 (if neg then - of_int (digits_val z) else of_int (digits_val z)))"

text \<open>
  \<^verbatim>\<open>x.toString(36)\<close>. ECMA-262 leaves the digits of a fraction to the engine; the model follows
  the algorithm of V8 (\<^verbatim>\<open>DoubleToRadixCString\<close>), which writes the fewest digits that still tell
  the value from its neighbours. The digits are \<^verbatim>\<open>0\<close>..\<^verbatim>\<open>9\<close>, \<^verbatim>\<open>a\<close>..\<^verbatim>\<open>z\<close>.
\<close>

definition digit_char :: "int \<Rightarrow> int" where
  "digit_char d = (if d < 10 then 48 + d else 87 + d)"

function radix_digits :: "int \<Rightarrow> int \<Rightarrow> int list" where
  "radix_digits b n = (if n < b \<or> b < 2 then [n] else radix_digits b (n div b) @ [n mod b])"
  by pat_completeness auto
termination
  by (relation "measure (\<lambda>(b, n). nat n)") (auto simp: int_div_less_self)

declare radix_digits.simps [simp del]

text \<open>The result of an arithmetic operation on finite Numbers, as the rational it denotes
  (the operations below stay far from the infinities).\<close>

definition dbl :: "rat \<Rightarrow> rat" where
  "dbl x = (case d64 x of Fin r \<Rightarrow> r | _ \<Rightarrow> x)"

text \<open>
  \<^verbatim>\<open>delta\<close>: half the distance from the value to the next Number above it, and at least the
  smallest positive Number \<open>2^-1074\<close>. For a value with binary exponent \<open>e\<close> the distance is
  \<open>2^(e - 52)\<close>.
\<close>

definition half_ulp :: "rat \<Rightarrow> rat" where
  "half_ulp v = 2 powi (max (floor_log 2 v - 53) (- 1074))"

text \<open>
  The carry when the last digit is rounded up: written digits that are \<open>radix - 1\<close> are
  dropped from the end, and the digit before them is raised by one. The digits are held
  last first. \<open>None\<close> says that no digit is left: the carry goes to the integer part.
\<close>

fun carry_over :: "int \<Rightarrow> int list \<Rightarrow> int list option" where
  "carry_over radix [] = None"
| "carry_over radix (digit # written) =
    (if digit + 1 < radix then Some ((digit + 1) # written) else carry_over radix written)"

text \<open>
  The loop that writes the digits of the fraction. Each round multiplies \<open>fraction\<close> and
  \<open>delta\<close> by the radix, writes the integer part of \<open>fraction\<close> as the next digit and keeps the
  rest. It stops when the rest is below \<open>delta\<close>, or when rounding the last digit up stays
  within \<open>delta\<close>. The result is the digits in order, and whether a carry reached the
  integer part (then no digit is left). The first argument bounds the rounds: \<open>delta\<close> is
  at least \<open>2^-1074\<close> and grows by the radix each round while the rest stays below 1, so
  the loop of the source ends within 1075 rounds.
\<close>

fun fraction_digits :: "nat \<Rightarrow> int \<Rightarrow> rat \<Rightarrow> rat \<Rightarrow> int list \<Rightarrow> bool \<times> int list" where
  "fraction_digits 0 radix fraction delta written = (False, rev written)"
| "fraction_digits (Suc k) radix fraction delta written =
    (let fraction1 = dbl (fraction * of_int radix);
         delta1 = dbl (delta * of_int radix);
         digit = \<lfloor>fraction1\<rfloor>;
         rest = fraction1 - of_int digit
     in if (1 / 2 < rest \<or> (rest = 1 / 2 \<and> odd digit)) \<and> 1 < dbl (rest + delta1)
        then (case carry_over radix (digit # written) of
                None \<Rightarrow> (True, [])
              | Some ds \<Rightarrow> (False, rev ds))
        else if delta1 \<le> rest then fraction_digits k radix rest delta1 (digit # written)
        else (False, rev (digit # written)))"

text \<open>
  The integer part: while it is \<open>2^53 = 9007199254740992\<close> or more it is divided by the
  radix and a \<^verbatim>\<open>0\<close> is written in place of the digit; the count of these zeros and the value
  left are the result. (A value below \<open>2^1024\<close> is below \<open>2^53\<close> after 188 divisions by 36.)
\<close>

fun zero_fill :: "nat \<Rightarrow> int \<Rightarrow> rat \<Rightarrow> nat \<times> rat" where
  "zero_fill 0 radix integer = (0, integer)"
| "zero_fill (Suc k) radix integer =
    (if 9007199254740992 \<le> integer
     then (let (zeros, rest) = zero_fill k radix (dbl (integer / of_int radix)) in (Suc zeros, rest))
     else (0, integer))"

definition toString36 :: "jsnum \<Rightarrow> jsstring" where
  "toString36 x = (case x of
      NaN \<Rightarrow> js ''NaN''
    | PInf \<Rightarrow> js ''Infinity''
    | NInf \<Rightarrow> js ''-Infinity''
    | Fin q \<Rightarrow>
        (let v = \<bar>q\<bar>;
             fraction = v - of_int \<lfloor>v\<rfloor>;
             delta = half_ulp v;
             (carry, digits) = (if delta \<le> fraction then fraction_digits 1075 36 fraction delta []
                                else (False, []));
             (zeros, integer) = zero_fill 188 36 (of_int \<lfloor>v\<rfloor> + (if carry then 1 else 0))
         in (if q < 0 then js ''-'' else [])
            @ map digit_char (radix_digits 36 \<lfloor>integer\<rfloor>)
            @ replicate zeros 48
            @ (if digits = [] then [] else js ''.'' @ map digit_char digits)))"

subsection \<open>JSON values\<close>

text \<open>
  What \<^verbatim>\<open>JSON.parse\<close> returns. An object keeps its members in the order of the text; when a
  key occurs twice the later member is the one a property read finds.
\<close>

datatype json =
    JNull
  | JBool bool
  | JNum jsnum
  | JStr jsstring
  | JArr "json list"
  | JObj "(jsstring \<times> json) list"

text \<open>Exceptions. The message of an exception the engine raises is the engine's own
  text and is a parameter wherever it is read.\<close>

datatype js_error = TypeError | SyntaxError | RangeError | Error jsstring

section \<open>The home screen: the meal ledger\<close>

text \<open>\<^verbatim>\<open>type Meal\<close> of \<^verbatim>\<open>src/index.tsx\<close>.\<close>

record Meal =
  id' :: jsstring
  ts :: jsnum
  description :: jsstring
  calories :: jsnum
  protein_g :: jsnum
  photoUri :: "jsstring option"

text \<open>
  The state of \<^verbatim>\<open>HomeScreen\<close>: its \<^verbatim>\<open>useState\<close> cells, and \<open>writes\<close>, the values handed to
  \<^verbatim>\<open>AsyncStorage.setItem(STORAGE_KEY, JSON.stringify(next))\<close>, latest first. The draft's
  description is whatever \<^verbatim>\<open>setDesc\<close> was given: the text field gives a string, the
  estimate any truthy value of the response.
\<close>

record home_state =
  meals :: "Meal list"
  showModal :: bool
  desc :: json
  calText :: jsstring
  protText :: jsstring
  draftPhoto :: "jsstring option"
  estimating :: bool
  estimateError :: "jsstring option"
  writes :: "Meal list list"

text \<open>What \<^verbatim>\<open>saveMeal\<close> reads from its surroundings: the clock (read twice), the random
  number, and whether the write to the store is rejected.\<close>

record save_env =
  now_id :: int
  random :: rat
  now_ts :: int
  write_error :: "js_error option"

datatype outcome = Done | Alert jsstring jsstring | Threw js_error

text \<open>
  \<^verbatim>\<open>persist(next)\<close>: the ledger is replaced first, then the store is written; a rejected
  write raises after the ledger has changed.
\<close>

definition persist :: "js_error option \<Rightarrow> Meal list \<Rightarrow> home_state \<Rightarrow> outcome \<times> home_state" where
  "persist werr next st =
    (let st' = st\<lparr>meals := next\<rparr>
     in case werr of
          Some e \<Rightarrow> (Threw e, st')
        | None \<Rightarrow> (Done, st'\<lparr>writes := next # writes st'\<rparr>))"

text \<open>\<^verbatim>\<open>x || y\<close> on strings: the empty string is falsy.\<close>

definition or_else :: "jsstring \<Rightarrow> jsstring \<Rightarrow> jsstring" where
  "or_else x y = (if x = [] then y else x)"

text \<open>\<^verbatim>\<open>desc.trim()\<close>: only a string has the method.\<close>

definition trim_method :: "json \<Rightarrow> js_error + jsstring" where
  "trim_method v = (case v of JStr s \<Rightarrow> Inr (trim s) | _ \<Rightarrow> Inl TypeError)"

definition saveMeal :: "save_env \<Rightarrow> home_state \<Rightarrow> outcome \<times> home_state" where
  "saveMeal env st =
    (let cal = parseInt10 (or_else (calText st) (js ''0''));
         prot = parseInt10 (or_else (protText st) (js ''0''))
     in if cal = NaN \<or> prot = NaN
        then (Alert (js ''Invalid input'') (js ''Calories and protein must be numbers.''), st)
        else (case trim_method (desc st) of
            Inl e \<Rightarrow> (Threw e, st)
          | Inr d \<Rightarrow>
              (let meal = \<lparr> id' = toString36 (js_add (Fin (of_int (now_id env))) (Fin (random env))),
                            ts = Fin (of_int (now_ts env)),
                            description = or_else d (js ''Meal''),
                            calories = cal,
                            protein_g = prot,
                            photoUri = draftPhoto st \<rparr>
               in case persist (write_error env) (meal # meals st) st of
                    (Done, st') \<Rightarrow> (Done, st'\<lparr>showModal := False\<rparr>)
                  | r \<Rightarrow> r)))"


text \<open>The cells as \<^verbatim>\<open>useState\<close> sets them up, and \<^verbatim>\<open>openModal\<close>, which clears the draft.\<close>

definition initial_state :: home_state where
  "initial_state = \<lparr> meals = [], showModal = False, desc = JStr [], calText = [], protText = [],
     draftPhoto = None, estimating = False, estimateError = None, writes = [] \<rparr>"

definition openModal :: "home_state \<Rightarrow> home_state" where
  "openModal st = st\<lparr> desc := JStr [], calText := [], protText := [], draftPhoto := None,
     estimateError := None, estimating := False, showModal := True \<rparr>"

text \<open>The alert of \<^verbatim>\<open>saveMeal\<close>, and the id it gives a meal.\<close>

definition invalid_input :: outcome where
  "invalid_input = Alert (js ''Invalid input'') (js ''Calories and protein must be numbers.'')"

definition new_id :: "save_env \<Rightarrow> jsstring" where
  "new_id env = toString36 (js_add (Fin (of_int (now_id env))) (Fin (random env)))"

text \<open>The meal \<^verbatim>\<open>saveMeal\<close> builds once both fields have parsed and the description, trimmed,
  is \<open>d\<close>.\<close>

definition new_meal :: "save_env \<Rightarrow> home_state \<Rightarrow> jsstring \<Rightarrow> Meal" where
  "new_meal env st d = \<lparr> id' = new_id env, ts = Fin (of_int (now_ts env)),
     description = or_else d (js ''Meal''),
     calories = parseInt10 (or_else (calText st) (js ''0'')),
     protein_g = parseInt10 (or_else (protText st) (js ''0'')),
     photoUri = draftPhoto st \<rparr>"

text \<open>A text from which \<^verbatim>\<open>parseInt\<close> reads a number: after leading white space and one optional
  sign comes a decimal digit.\<close>

definition starts_with_integer :: "jsstring \<Rightarrow> bool" where
  "starts_with_integer s =
    (case dropWhile is_ws s of
       [] \<Rightarrow> False
     | c # cs \<Rightarrow> if c = 43 \<or> c = 45 then (case cs of [] \<Rightarrow> False | k # _ \<Rightarrow> is_digit k)
                else is_digit c)"

text \<open>Two readings of the surroundings within one millisecond of 2025-03-30T23:30:00Z, with
  different random numbers.\<close>

definition env_a :: save_env where
  "env_a = \<lparr>now_id = 1743377400000, random = 1 / 2, now_ts = 1743377400000, write_error = None\<rparr>"


section \<open>Dates\<close>

text \<open>
  The time value of a \<^verbatim>\<open>Date\<close> is a number of milliseconds since 1970-01-01T00:00:00Z, or
  invalid (\<open>None\<close>). The functions below are those of ECMA-262, section "Date Objects",
  under their names there.
\<close>

definition msPerDay :: int where
  "msPerDay = 86400000"

definition Day :: "int \<Rightarrow> int" where
  "Day t = t div msPerDay"

definition TimeWithinDay :: "int \<Rightarrow> int" where
  "TimeWithinDay t = t mod msPerDay"

definition leap_year :: "int \<Rightarrow> bool" where
  "leap_year y \<longleftrightarrow> y mod 4 = 0 \<and> (y mod 100 \<noteq> 0 \<or> y mod 400 = 0)"

definition DayFromYear :: "int \<Rightarrow> int" where
  "DayFromYear y = 365 * (y - 1970) + (y - 1969) div 4 - (y - 1901) div 100 + (y - 1601) div 400"

text \<open>\<open>YearFromTime t\<close> is the largest year that starts at or before \<open>t\<close>: the search walks
  down from a year that starts after the day (no year has fewer than 365 days).\<close>

lemma div_step: "(a - 1) div k \<le> a div k" "a div k \<le> (a - 1) div k + 1" if "0 < k" for a k :: int
proof -
  show "(a - 1) div k \<le> a div k" using that by (simp add: zdiv_mono1)
  have "a div k \<le> (a - 1 + k) div k" using that by (intro zdiv_mono1) auto
  also have "\<dots> = (a - 1) div k + 1" using that by simp
  finally show "a div k \<le> (a - 1) div k + 1" .
qed

lemma DayFromYear_step: "DayFromYear (y - 1) < DayFromYear y"
proof -
  define a a' b b' c c' where "a = (y - 1969) div 4" and "a' = (y - 1 - 1969) div 4"
    and "b = (y - 1901) div 100" and "b' = (y - 1 - 1901) div 100"
    and "c = (y - 1601) div 400" and "c' = (y - 1 - 1601) div 400"
  have "a' \<le> a"
    unfolding a_def a'_def using div_step(1) [of 4 "y - 1969"] by (simp add: algebra_simps)
  moreover have "b \<le> b' + 1"
    unfolding b_def b'_def using div_step(2) [of 100 "y - 1901"] by (simp add: algebra_simps)
  moreover have "c' \<le> c"
    unfolding c_def c'_def using div_step(1) [of 400 "y - 1601"] by (simp add: algebra_simps)
  moreover have "DayFromYear y = 365 * (y - 1970) + a - b + c"
    and "DayFromYear (y - 1) = 365 * (y - 1 - 1970) + a' - b' + c'"
    by (simp_all only: DayFromYear_def a_def a'_def b_def b'_def c_def c'_def)
  ultimately show ?thesis by simp
qed

function year_down :: "int \<Rightarrow> int \<Rightarrow> int" where
  "year_down d y = (if DayFromYear y \<le> d then y else year_down d (y - 1))"
  by pat_completeness auto
termination
proof (relation "measure (\<lambda>(d, y). nat (DayFromYear y - d))")
  show "wf (measure (\<lambda>(d, y). nat (DayFromYear y - d)))" by simp
next
  fix d y :: int
  assume "\<not> DayFromYear y \<le> d"
  then show "((d, y - 1), (d, y)) \<in> measure (\<lambda>(d, y). nat (DayFromYear y - d))"
    using DayFromYear_step [of y] by simp
qed

declare year_down.simps [simp del]

definition YearFromTime :: "int \<Rightarrow> int" where
  "YearFromTime t = year_down (Day t) (1970 + max 0 (Day t div 365 + 1))"

definition DayWithinYear :: "int \<Rightarrow> int" where
  "DayWithinYear t = Day t - DayFromYear (YearFromTime t)"

text \<open>The day of the year on which month \<open>m\<close> (0 to 11) starts.\<close>

definition month_start :: "bool \<Rightarrow> int \<Rightarrow> int" where
  "month_start leap m =
    (let l = (if leap then 1 else 0)
     in if m = 0 then 0 else if m = 1 then 31 else if m = 2 then 59 + l
        else if m = 3 then 90 + l else if m = 4 then 120 + l else if m = 5 then 151 + l
        else if m = 6 then 181 + l else if m = 7 then 212 + l else if m = 8 then 243 + l
        else if m = 9 then 273 + l else if m = 10 then 304 + l else 334 + l)"

definition MonthFromTime :: "int \<Rightarrow> int" where
  "MonthFromTime t =
    (let d = DayWithinYear t; l = (if leap_year (YearFromTime t) then 1 else 0)
     in if d < 31 then 0 else if d < 59 + l then 1 else if d < 90 + l then 2
        else if d < 120 + l then 3 else if d < 151 + l then 4 else if d < 181 + l then 5
        else if d < 212 + l then 6 else if d < 243 + l then 7 else if d < 273 + l then 8
        else if d < 304 + l then 9 else if d < 334 + l then 10 else 11)"

definition DateFromTime :: "int \<Rightarrow> int" where
  "DateFromTime t =
     DayWithinYear t - month_start (leap_year (YearFromTime t)) (MonthFromTime t) + 1"

definition MakeDay :: "int \<Rightarrow> int \<Rightarrow> int \<Rightarrow> int" where
  "MakeDay year month date =
    (let ym = year + month div 12; mn = month mod 12
     in DayFromYear ym + month_start (leap_year ym) mn + date - 1)"

definition MakeDate :: "int \<Rightarrow> int \<Rightarrow> int" where
  "MakeDate day time = day * msPerDay + time"

text \<open>\<^verbatim>\<open>TimeClip\<close>: a time value is an integer of at most \<open>8.64 * 10^15\<close> in size.\<close>

definition TimeClip :: "jsnum \<Rightarrow> int option" where
  "TimeClip x = (case x of
      Fin q \<Rightarrow> if \<bar>q\<bar> \<le> 8640000000000000 then Some (if 0 \<le> q then \<lfloor>q\<rfloor> else \<lceil>q\<rceil>) else None
    | _ \<Rightarrow> None)"

text \<open>
  The time zone of the device: the offset of local time at a UTC time value, and the
  offset by which a local time value is read back (\<^verbatim>\<open>LocalTZA(t, true)\<close> and
  \<^verbatim>\<open>LocalTZA(t, false)\<close>).
\<close>

record timezone =
  utc_offset :: "int \<Rightarrow> int"
  local_offset :: "int \<Rightarrow> int"

definition LocalTime :: "timezone \<Rightarrow> int \<Rightarrow> int" where
  "LocalTime tz t = t + utc_offset tz t"

definition UTC :: "timezone \<Rightarrow> int \<Rightarrow> int" where
  "UTC tz t = t - local_offset tz t"

text \<open>\<^verbatim>\<open>d.getDate()\<close> and \<^verbatim>\<open>x.setDate(dt)\<close> of a valid date: the day of the month in local time,
  and the time value with that day replaced, the local time of day kept.\<close>

definition getDate :: "timezone \<Rightarrow> int \<Rightarrow> int" where
  "getDate tz t = DateFromTime (LocalTime tz t)"

definition setDate :: "timezone \<Rightarrow> int \<Rightarrow> int \<Rightarrow> int option" where
  "setDate tz t dt =
    (let l = LocalTime tz t;
         newDate = MakeDate (MakeDay (YearFromTime l) (MonthFromTime l) dt) (TimeWithinDay l)
     in TimeClip (Fin (of_int (UTC tz newDate))))"

text \<open>\<^verbatim>\<open>toISOString\<close>: \<^verbatim>\<open>YYYY-MM-DDTHH:mm:ss.sssZ\<close> in UTC, the year with a sign and six digits
  outside 0 to 9999; a \<^verbatim>\<open>RangeError\<close> for an invalid date.\<close>

definition pad :: "nat \<Rightarrow> int \<Rightarrow> jsstring" where
  "pad w n = (let ds = map (\<lambda>d. 48 + d) (radix_digits 10 n) in replicate (w - length ds) 48 @ ds)"

definition toISOString :: "int option \<Rightarrow> js_error + jsstring" where
  "toISOString tv = (case tv of
      None \<Rightarrow> Inl RangeError
    | Some t \<Rightarrow>
        (let y = YearFromTime t
         in Inr ((if 0 \<le> y \<and> y \<le> 9999 then pad 4 y
                  else (if y < 0 then js ''-'' else js ''+'') @ pad 6 \<bar>y\<bar>)
              @ js ''-'' @ pad 2 (MonthFromTime t + 1) @ js ''-'' @ pad 2 (DateFromTime t)
              @ js ''T'' @ pad 2 (t div 3600000 mod 24) @ js '':'' @ pad 2 (t div 60000 mod 60)
              @ js '':'' @ pad 2 (t div 1000 mod 60) @ js ''.'' @ pad 3 (t mod 1000) @ js ''Z'')))"

section \<open>The week screen\<close>

text \<open>\<^verbatim>\<open>dateKey(ts)\<close>, the same function in both screens:
  \<^verbatim>\<open>new Date(ts).toISOString().slice(0, 10)\<close>.\<close>

definition dateKey :: "jsnum \<Rightarrow> js_error + jsstring" where
  "dateKey x = (case toISOString (TimeClip x) of Inl e \<Rightarrow> Inl e | Inr s \<Rightarrow> Inr (take 10 s))"

text \<open>
  \<^verbatim>\<open>lastNDays(n)\<close> of \<^verbatim>\<open>src/unnamed/part_001\<close>. The clock reading \<open>now\<close> stands for \<^verbatim>\<open>new Date()\<close>.
  Round \<open>i\<close> of the loop copies the date, moves the copy \<open>i\<close> days back with \<^verbatim>\<open>setDate\<close> (local
  time) and appends the first ten characters of its \<^verbatim>\<open>toISOString\<close> (UTC).
\<close>

definition day_back :: "timezone \<Rightarrow> int \<Rightarrow> int \<Rightarrow> js_error + jsstring" where
  "day_back tz now i =
    (case toISOString (setDate tz now (getDate tz now - i)) of
       Inl e \<Rightarrow> Inl e
     | Inr s \<Rightarrow> Inr (take 10 s))"

function lastNDays_loop :: "timezone \<Rightarrow> int \<Rightarrow> int \<Rightarrow> int \<Rightarrow> jsstring list \<Rightarrow> js_error + jsstring list" where
  "lastNDays_loop tz now n i out =
    (if i < n
     then (case day_back tz now i of
             Inl e \<Rightarrow> Inl e
           | Inr s \<Rightarrow> lastNDays_loop tz now n (i + 1) (out @ [s]))
     else Inr out)"
  by pat_completeness auto
termination
  by (relation "measure (\<lambda>(tz, now, n, i, out). nat (n - i))") auto

declare lastNDays_loop.simps [simp del]

definition lastNDays :: "timezone \<Rightarrow> int \<Rightarrow> int \<Rightarrow> js_error + jsstring list" where
  "lastNDays tz now n = lastNDays_loop tz now n 0 []"

text \<open>
  \<^verbatim>\<open>perDay\<close> and \<^verbatim>\<open>weeklyTotals\<close> of \<^verbatim>\<open>WeekScreen\<close>. A meal whose time stamp is not a valid date
  makes \<^verbatim>\<open>dateKey\<close> raise, and with it the whole computation. \<open>day_meals\<close> is the
  \<^verbatim>\<open>filter\<close>, \<open>sum_by\<close> the \<^verbatim>\<open>reduce\<close> from 0.
\<close>

record day_total =
  day :: jsstring
  day_calories :: jsnum
  day_protein :: jsnum

fun day_meals :: "jsstring \<Rightarrow> Meal list \<Rightarrow> js_error + Meal list" where
  "day_meals d [] = Inr []"
| "day_meals d (m # ms) =
    (case dateKey (ts m) of
       Inl e \<Rightarrow> Inl e
     | Inr k \<Rightarrow> (case day_meals d ms of
                   Inl e \<Rightarrow> Inl e
                 | Inr r \<Rightarrow> Inr (if k = d then m # r else r)))"

definition sum_by :: "('a \<Rightarrow> jsnum) \<Rightarrow> 'a list \<Rightarrow> jsnum" where
  "sum_by f xs = foldl (\<lambda>s x. js_add s (f x)) (Fin 0) xs"

definition totalsForDay :: "Meal list \<Rightarrow> jsstring \<Rightarrow> js_error + day_total" where
  "totalsForDay ms d =
    (case day_meals d ms of
       Inl e \<Rightarrow> Inl e
     | Inr dm \<Rightarrow> Inr \<lparr> day = d, day_calories = sum_by calories dm, day_protein = sum_by protein_g dm \<rparr>)"

fun perDay :: "Meal list \<Rightarrow> jsstring list \<Rightarrow> js_error + day_total list" where
  "perDay ms [] = Inr []"
| "perDay ms (d # ds) =
    (case totalsForDay ms d of
       Inl e \<Rightarrow> Inl e
     | Inr t \<Rightarrow> (case perDay ms ds of Inl e \<Rightarrow> Inl e | Inr r \<Rightarrow> Inr (t # r)))"

definition weeklyTotals :: "day_total list \<Rightarrow> jsnum \<times> jsnum" where
  "weeklyTotals pd = (sum_by day_calories pd, sum_by day_protein pd)"

text \<open>The week screen as a whole: the days, the totals of each day, the totals of the week.\<close>

definition week :: "timezone \<Rightarrow> int \<Rightarrow> Meal list \<Rightarrow> js_error + (day_total list \<times> (jsnum \<times> jsnum))" where
  "week tz now ms =
    (case lastNDays tz now 7 of
       Inl e \<Rightarrow> Inl e
     | Inr days \<Rightarrow> (case perDay ms days of
                     Inl e \<Rightarrow> Inl e
                   | Inr pd \<Rightarrow> Inr (pd, weeklyTotals pd)))"

text \<open>Two time zones: UTC, and Europe/London in 2025, one hour ahead of UTC from
  2025-03-30T01:00:00Z until 2025-10-26T01:00:00Z. A local time in the skipped or in the
  repeated hour is read with the offset before the change.\<close>

definition utc_zone :: timezone where
  "utc_zone = \<lparr> utc_offset = (\<lambda>t. 0), local_offset = (\<lambda>t. 0) \<rparr>"

definition london_2025 :: timezone where
  "london_2025 = \<lparr>
     utc_offset = (\<lambda>t. if 1743296400000 \<le> t \<and> t < 1761440400000 then 3600000 else 0),
     local_offset = (\<lambda>t. if 1743300000000 \<le> t \<and> t < 1761444000000 then 3600000 else 0) \<rparr>"

text \<open>A meal logged at 2025-03-30T11:30:00Z.\<close>

definition lunch :: Meal where
  "lunch = \<lparr> id' = js ''m8w8kqo0.i'', ts = Fin 1743334200000, description = js ''Lunch'',
     calories = Fin 650, protein_g = Fin 40, photoUri = None \<rparr>"

section \<open>JSON.parse\<close>

text \<open>
  \<^verbatim>\<open>JSON.parse\<close> after ECMA-404: the text is cut into tokens, and the tokens are read with a
  stack of the arrays and objects that are still open. \<open>None\<close> stands for the
  \<^verbatim>\<open>SyntaxError\<close>.
\<close>

datatype token =
    TLBrace | TRBrace | TLBrack | TRBrack | TColon | TComma
  | TString jsstring | TNumber jsnum | TTrue | TFalse | TNull

definition hex_val :: "int \<Rightarrow> int option" where
  "hex_val c = (if 48 \<le> c \<and> c \<le> 57 then Some (c - 48)
                else if 65 \<le> c \<and> c \<le> 70 then Some (c - 55)
                else if 97 \<le> c \<and> c \<le> 102 then Some (c - 87) else None)"

text \<open>The code unit of \<^verbatim>\<open>\uXXXX\<close>, from its four hexadecimal digits.\<close>

definition hex4 :: "jsstring \<Rightarrow> int option" where
  "hex4 s = (case map hex_val s of
      [Some a, Some b, Some c, Some d] \<Rightarrow> Some (4096 * a + 256 * b + 16 * c + d)
    | _ \<Rightarrow> None)"

text \<open>The character after a backslash: \<^verbatim>\<open>" \ / b f n r t\<close>.\<close>

definition escape_char :: "int \<Rightarrow> int option" where
  "escape_char e = (if e = 34 then Some 34 else if e = 92 then Some 92 else if e = 47 then Some 47
     else if e = 98 then Some 8 else if e = 102 then Some 12 else if e = 110 then Some 10
     else if e = 114 then Some 13 else if e = 116 then Some 9 else None)"

text \<open>\<open>lex_string acc s\<close> reads a string from behind its opening quote: the characters read
  so far are \<open>acc\<close> (last first); the result is the string and the text after the closing
  quote. A control character below U+0020 is not allowed.\<close>

function lex_string :: "jsstring \<Rightarrow> jsstring \<Rightarrow> (jsstring \<times> jsstring) option" where
  "lex_string acc s =
    (case s of
       [] \<Rightarrow> None
     | c # cs \<Rightarrow>
         if c = 34 then Some (rev acc, cs)
         else if c = 92 then
           (case cs of
              [] \<Rightarrow> None
            | e # r \<Rightarrow>
                if e = 117 then (case hex4 (take 4 r) of
                                   None \<Rightarrow> None
                                 | Some v \<Rightarrow> lex_string (v # acc) (drop 4 r))
                else (case escape_char e of
                        None \<Rightarrow> None
                      | Some v \<Rightarrow> lex_string (v # acc) r))
         else if c < 32 then None
         else lex_string (c # acc) cs)"
  by pat_completeness auto
termination
  by (relation "measure (\<lambda>(acc, s). length s)") auto

declare lex_string.simps [simp del]

text \<open>
  A number: an optional minus, an integer part without a leading zero (or a single 0),
  an optional fraction with at least one digit, an optional exponent with at least one
  digit. Its value is the binary64 value nearest to the decimal. Each part is read from
  the front of the text and gives what it read and the text behind it.
\<close>

definition digits1 :: "jsstring \<Rightarrow> (jsstring \<times> jsstring) option" where
  "digits1 s = (if takeWhile is_digit s = [] then None
                else Some (takeWhile is_digit s, dropWhile is_digit s))"

definition opt_frac :: "jsstring \<Rightarrow> (jsstring \<times> jsstring) option" where
  "opt_frac s = (case s of
      [] \<Rightarrow> Some ([], s)
    | c # cs \<Rightarrow> if c = 46 then digits1 cs else Some ([], s))"

definition opt_exp :: "jsstring \<Rightarrow> (int \<times> jsstring) option" where
  "opt_exp s = (case s of
      [] \<Rightarrow> Some (0, s)
    | c # cs \<Rightarrow>
        if c = 101 \<or> c = 69
        then (case cs of
                [] \<Rightarrow> None
              | k # ks \<Rightarrow>
                  if k = 45 then map_option (\<lambda>(d, r). (- digits_val d, r)) (digits1 ks)
                  else if k = 43 then map_option (\<lambda>(d, r). (digits_val d, r)) (digits1 ks)
                  else map_option (\<lambda>(d, r). (digits_val d, r)) (digits1 cs))
        else Some (0, s))"

definition lex_number :: "jsstring \<Rightarrow> (jsnum \<times> jsstring) option" where
  "lex_number s =
    (let neg = (case s of [] \<Rightarrow> False | c # _ \<Rightarrow> c = 45)
     in case digits1 (if neg then tl s else s) of
          None \<Rightarrow> None
        | Some (ip, s2) \<Rightarrow>
            if hd ip = 48 \<and> length ip \<noteq> 1 then None
            else (case opt_frac s2 of
                None \<Rightarrow> None
              | Some (fp, s3) \<Rightarrow>
                  (case opt_exp s3 of
                     None \<Rightarrow> None
                   | Some (e, s4) \<Rightarrow>
                       (let m = of_int (digits_val (ip @ fp)) * 10 powi (e - int (length fp))
                        in Some (d64 (if neg then - m else m), s4)))))"

definition is_json_ws :: "int \<Rightarrow> bool" where
  "is_json_ws c \<longleftrightarrow> c = 32 \<or> c = 9 \<or> c = 10 \<or> c = 13"

definition starts_with :: "jsstring \<Rightarrow> jsstring \<Rightarrow> bool" where
  "starts_with s p \<longleftrightarrow> take (length p) s = p"

lemma lex_string_shorter: "lex_string acc s = Some (v, r) \<Longrightarrow> length r < length s"
proof (induction acc s rule: lex_string.induct)
  case (1 acc s)
  show ?case
  proof (cases s)
    case Nil
    with "1.prems" show ?thesis by (simp add: lex_string.simps)
  next
    case (Cons c cs)
    note s = Cons
    consider (quote) "c = 34" | (esc) "c \<noteq> 34" "c = 92" | (ctl) "c \<noteq> 34" "c \<noteq> 92" "c < 32"
      | (plain) "c \<noteq> 34" "c \<noteq> 92" "\<not> c < 32" by blast
    then show ?thesis
    proof cases
      case quote
      with "1.prems" s show ?thesis by (simp add: lex_string.simps)
    next
      case esc
      show ?thesis
      proof (cases cs)
        case Nil
        with "1.prems" s esc show ?thesis by (simp add: lex_string.simps)
      next
        case (Cons e t)
        show ?thesis
        proof (cases "e = 117")
          case True
          then obtain u where h: "hex4 (take 4 t) = Some u"
            and l: "lex_string (u # acc) (drop 4 t) = Some (v, r)"
            using "1.prems" s esc Cons by (subst (asm) lex_string.simps) (auto split: option.splits)
          from "1.IH"(1) [OF s esc(1) esc(2) Cons True h l] show ?thesis
            using s Cons by simp
        next
          case False
          then obtain u where h: "escape_char e = Some u"
            and l: "lex_string (u # acc) t = Some (v, r)"
            using "1.prems" s esc Cons by (subst (asm) lex_string.simps) (auto split: option.splits)
          from "1.IH"(2) [OF s esc(1) esc(2) Cons False h l] show ?thesis
            using s Cons by simp
        qed
      qed
    next
      case ctl
      with "1.prems" s show ?thesis by (simp add: lex_string.simps)
    next
      case plain
      then have l: "lex_string (c # acc) cs = Some (v, r)"
        using "1.prems" s by (subst (asm) lex_string.simps) simp
      from "1.IH"(3) [OF s plain l] show ?thesis using s by simp
    qed
  qed
qed

lemma digits1_shorter: "digits1 s = Some (d, r) \<Longrightarrow> length r < length s"
proof -
  assume "digits1 s = Some (d, r)"
  then have d: "d = takeWhile is_digit s" "d \<noteq> []" and r: "r = dropWhile is_digit s"
    by (auto simp: digits1_def split: if_splits)
  have "length d + length r = length s"
    unfolding d r by (metis length_append takeWhile_dropWhile_id)
  moreover have "0 < length d" using d by simp
  ultimately show ?thesis by linarith
qed

lemma opt_frac_shorter: "opt_frac s = Some (d, r) \<Longrightarrow> length r \<le> length s"
  by (auto simp: opt_frac_def split: list.splits if_splits dest!: digits1_shorter)

lemma opt_exp_shorter: "opt_exp s = Some (e, r) \<Longrightarrow> length r \<le> length s"
  by (auto simp: opt_exp_def split: list.splits if_splits dest!: digits1_shorter)

lemma lex_number_shorter: "lex_number s = Some (v, r) \<Longrightarrow> length r < length s"
proof -
  assume a: "lex_number s = Some (v, r)"
  define s1 where "s1 = (if (case s of [] \<Rightarrow> False | c # _ \<Rightarrow> c = 45) then tl s else s)"
  from a obtain ip s2 fp s3 e where 1: "digits1 s1 = Some (ip, s2)"
    and 2: "opt_frac s2 = Some (fp, s3)" and 3: "opt_exp s3 = Some (e, r)"
    unfolding lex_number_def Let_def s1_def [symmetric]
    by (auto split: option.splits if_splits)
  have "length s1 \<le> length s" by (simp add: s1_def)
  with digits1_shorter [OF 1] opt_frac_shorter [OF 2] opt_exp_shorter [OF 3]
  show ?thesis by simp
qed

function tokenize :: "jsstring \<Rightarrow> token list option" where
  "tokenize s =
    (case s of
       [] \<Rightarrow> Some []
     | c # cs \<Rightarrow>
         if is_json_ws c then tokenize cs
         else if c = 123 then map_option ((#) TLBrace) (tokenize cs)
         else if c = 125 then map_option ((#) TRBrace) (tokenize cs)
         else if c = 91 then map_option ((#) TLBrack) (tokenize cs)
         else if c = 93 then map_option ((#) TRBrack) (tokenize cs)
         else if c = 58 then map_option ((#) TColon) (tokenize cs)
         else if c = 44 then map_option ((#) TComma) (tokenize cs)
         else if c = 34 then
           (case lex_string [] cs of
              None \<Rightarrow> None
            | Some (v, r) \<Rightarrow> map_option ((#) (TString v)) (tokenize r))
         else if starts_with s (js ''true'') then map_option ((#) TTrue) (tokenize (drop 4 s))
         else if starts_with s (js ''false'') then map_option ((#) TFalse) (tokenize (drop 5 s))
         else if starts_with s (js ''null'') then map_option ((#) TNull) (tokenize (drop 4 s))
         else (case lex_number s of
                 None \<Rightarrow> None
               | Some (v, r) \<Rightarrow> map_option ((#) (TNumber v)) (tokenize r)))"
  by pat_completeness auto
termination
  by (relation "measure length")
     (auto dest: lex_string_shorter lex_number_shorter simp: less_Suc_eq_le)

declare tokenize.simps [simp del]

text \<open>
  The reader of tokens. An open array holds its elements so far, an open object its
  members so far and, between a key and its value, the key (all last first). The mode
  says what may come next.
\<close>

datatype frame = InArr "json list" | InObj "(jsstring \<times> json) list" "jsstring option"

datatype mode = Value | ValueOrClose | KeyOrClose | Key | Colon | CommaOrClose | End json

text \<open>A value is complete: it is the result, or goes into the innermost open array or
  object.\<close>

fun put_value :: "json \<Rightarrow> frame list \<Rightarrow> (mode \<times> frame list) option" where
  "put_value v [] = Some (End v, [])"
| "put_value v (InArr es # st) = Some (CommaOrClose, InArr (v # es) # st)"
| "put_value v (InObj ms (Some k) # st) = Some (CommaOrClose, InObj ((k, v) # ms) None # st)"
| "put_value v (InObj ms None # st) = None"

fun scalar :: "token \<Rightarrow> json option" where
  "scalar (TString s) = Some (JStr s)"
| "scalar (TNumber n) = Some (JNum n)"
| "scalar TTrue = Some (JBool True)"
| "scalar TFalse = Some (JBool False)"
| "scalar TNull = Some JNull"
| "scalar _ = None"

definition read_value :: "token \<Rightarrow> frame list \<Rightarrow> (mode \<times> frame list) option" where
  "read_value t st =
    (case t of
       TLBrack \<Rightarrow> Some (ValueOrClose, InArr [] # st)
     | TLBrace \<Rightarrow> Some (KeyOrClose, InObj [] None # st)
     | _ \<Rightarrow> (case scalar t of None \<Rightarrow> None | Some v \<Rightarrow> put_value v st))"

definition read_key :: "token \<Rightarrow> frame list \<Rightarrow> (mode \<times> frame list) option" where
  "read_key t st =
    (case (t, st) of
       (TString k, InObj ms None # r) \<Rightarrow> Some (Colon, InObj ms (Some k) # r)
     | _ \<Rightarrow> None)"

definition close_frame :: "token \<Rightarrow> frame list \<Rightarrow> (mode \<times> frame list) option" where
  "close_frame t st =
    (case (t, st) of
       (TRBrack, InArr es # r) \<Rightarrow> put_value (JArr (rev es)) r
     | (TRBrace, InObj ms None # r) \<Rightarrow> put_value (JObj (rev ms)) r
     | _ \<Rightarrow> None)"

definition step :: "mode \<times> frame list \<Rightarrow> token \<Rightarrow> (mode \<times> frame list) option" where
  "step ms t =
    (case ms of (m, st) \<Rightarrow>
      (case m of
         Value \<Rightarrow> read_value t st
       | ValueOrClose \<Rightarrow> if t = TRBrack then close_frame t st else read_value t st
       | KeyOrClose \<Rightarrow> if t = TRBrace then close_frame t st else read_key t st
       | Key \<Rightarrow> read_key t st
       | Colon \<Rightarrow> if t = TColon then Some (Value, st) else None
       | CommaOrClose \<Rightarrow>
           if t = TComma
           then (case st of
                   InArr es # r \<Rightarrow> Some (Value, st)
                 | InObj ms None # r \<Rightarrow> Some (Key, st)
                 | _ \<Rightarrow> None)
           else close_frame t st
       | End v \<Rightarrow> None))"

fun run :: "mode \<times> frame list \<Rightarrow> token list \<Rightarrow> json option" where
  "run (m, st) [] = (case m of End v \<Rightarrow> Some v | _ \<Rightarrow> None)"
| "run (m, st) (t # toks) = (case step (m, st) t of None \<Rightarrow> None | Some ms \<Rightarrow> run ms toks)"

definition JSON_parse :: "jsstring \<Rightarrow> json option" where
  "JSON_parse s = (case tokenize s of None \<Rightarrow> None | Some toks \<Rightarrow> run (Value, []) toks)"

section \<open>Conversions\<close>

text \<open>
  \<^verbatim>\<open>Number(s)\<close> of a string, after the grammar \<^verbatim>\<open>StringNumericLiteral\<close>: white space around the
  literal is dropped; the empty text is 0; a literal is \<^verbatim>\<open>Infinity\<close> with an optional sign, a
  binary, octal or hexadecimal integer (\<^verbatim>\<open>0b\<close>, \<^verbatim>\<open>0o\<close>, \<^verbatim>\<open>0x\<close>), or a signed decimal with
  digits before or after the point and an optional exponent; anything else is \<open>NaN\<close>.
\<close>

definition radix_literal :: "int \<Rightarrow> jsstring \<Rightarrow> jsnum" where
  "radix_literal b ds =
    (if ds \<noteq> [] \<and> list_all (\<lambda>c. case hex_val c of None \<Rightarrow> False | Some v \<Rightarrow> v < b) ds
     then d64 (of_int (foldl (\<lambda>a c. b * a + the (hex_val c)) 0 ds))
     else NaN)"

definition decimal_literal :: "jsstring \<Rightarrow> jsnum" where
  "decimal_literal s =
    (let ip = takeWhile is_digit s;
         s2 = dropWhile is_digit s;
         has_point = (case s2 of [] \<Rightarrow> False | c # _ \<Rightarrow> c = 46);
         fp = (if has_point then takeWhile is_digit (tl s2) else []);
         s3 = (if has_point then dropWhile is_digit (tl s2) else s2)
     in if ip = [] \<and> fp = [] then NaN
        else (case opt_exp s3 of
                Some (e, []) \<Rightarrow> d64 (of_int (digits_val (ip @ fp)) * 10 powi (e - int (length fp)))
              | _ \<Rightarrow> NaN))"

definition js_neg :: "jsnum \<Rightarrow> jsnum" where
  "js_neg x = (case x of NaN \<Rightarrow> NaN | Fin q \<Rightarrow> Fin (- q) | PInf \<Rightarrow> NInf | NInf \<Rightarrow> PInf)"

definition unsigned_literal :: "jsstring \<Rightarrow> jsnum" where
  "unsigned_literal s = (if s = js ''Infinity'' then PInf else decimal_literal s)"

definition string_to_number :: "jsstring \<Rightarrow> jsnum" where
  "string_to_number s =
    (let t = trim s
     in case t of
          [] \<Rightarrow> Fin 0
        | c # cs \<Rightarrow>
            if c = 43 then unsigned_literal cs
            else if c = 45 then js_neg (unsigned_literal cs)
            else if c = 48 \<and> (starts_with cs (js ''x'') \<or> starts_with cs (js ''X''))
              then radix_literal 16 (tl cs)
            else if c = 48 \<and> (starts_with cs (js ''o'') \<or> starts_with cs (js ''O''))
              then radix_literal 8 (tl cs)
            else if c = 48 \<and> (starts_with cs (js ''b'') \<or> starts_with cs (js ''B''))
              then radix_literal 2 (tl cs)
            else unsigned_literal t)"

text \<open>
  \<^verbatim>\<open>String(x)\<close> of a Number (\<^verbatim>\<open>Number::toString\<close>, radix 10). For a positive \<open>x\<close> it takes the
  least number \<open>k\<close> of digits for which some \<open>s\<close> of \<open>k\<close> digits has \<open>s * 10^(n - k)\<close> rounding
  to \<open>x\<close>, the \<open>s\<close> nearest to \<open>x\<close> if there are two (the even one on a tie). With
  \<open>n0 - 1\<close> the decimal exponent of \<open>x\<close>, the candidates with \<open>k\<close> digits are the integer part
  of \<open>x / 10^(n0 - k)\<close> and its successor. Seventeen digits always suffice for a binary64
  value. The digits are then laid out by the size of \<open>n\<close>.
\<close>

definition pick_digits :: "rat \<Rightarrow> int \<Rightarrow> int \<Rightarrow> int option" where
  "pick_digits x n0 k =
    (let u = 10 powi (n0 - k);
         lo = \<lfloor>x / u\<rfloor>;
         hi = lo + 1;
         ok_lo = (d64 (of_int lo * u) = Fin x);
         ok_hi = (d64 (of_int hi * u) = Fin x);
         d_lo = x - of_int lo * u;
         d_hi = of_int hi * u - x
     in if ok_lo \<and> ok_hi then Some (if d_lo < d_hi then lo else if d_hi < d_lo then hi
                                     else if even lo then lo else hi)
        else if ok_lo then Some lo
        else if ok_hi then Some hi
        else None)"

fun first_digits :: "rat \<Rightarrow> int \<Rightarrow> int list \<Rightarrow> (int \<times> int) option" where
  "first_digits x n0 [] = None"
| "first_digits x n0 (k # ks) =
    (case pick_digits x n0 k of Some s \<Rightarrow> Some (k, s) | None \<Rightarrow> first_digits x n0 ks)"

text \<open>\<open>shortest x = (n, k, s)\<close>. When the successor is picked and is \<open>10^k\<close>, the digits are a
  single 1 one place higher. (For a rational that is no binary64 value and has no
  candidate the last case gives its first 17 digits.)\<close>

definition shortest :: "rat \<Rightarrow> int \<times> int \<times> int" where
  "shortest x =
    (let n0 = floor_log 10 x + 1
     in case first_digits x n0 [1, 2, 3, 4, 5, 6, 7, 8, 9, 10, 11, 12, 13, 14, 15, 16, 17] of
          Some (k, s) \<Rightarrow> if s = 10 ^ nat k then (n0 + 1, 1, 1) else (n0, k, s)
        | None \<Rightarrow> (n0, 17, \<lfloor>x / 10 powi (n0 - 17)\<rfloor>))"

definition dec :: "int \<Rightarrow> jsstring" where
  "dec n = map (\<lambda>d. 48 + d) (radix_digits 10 n)"

definition layout :: "int \<times> int \<times> int \<Rightarrow> jsstring" where
  "layout nks =
    (case nks of (n, k, s) \<Rightarrow>
      (let ds = dec s
       in if k \<le> n \<and> n \<le> 21 then ds @ replicate (nat (n - k)) 48
          else if 0 < n \<and> n \<le> 21 then take (nat n) ds @ js ''.'' @ drop (nat n) ds
          else if - 6 < n \<and> n \<le> 0 then js ''0.'' @ replicate (nat (- n)) 48 @ ds
          else (if k = 1 then ds else take 1 ds @ js ''.'' @ drop 1 ds)
               @ js ''e'' @ (if n - 1 < 0 then js ''-'' else js ''+'') @ dec \<bar>n - 1\<bar>))"

definition num_to_string :: "jsnum \<Rightarrow> jsstring" where
  "num_to_string x = (case x of
      NaN \<Rightarrow> js ''NaN''
    | PInf \<Rightarrow> js ''Infinity''
    | NInf \<Rightarrow> js ''-Infinity''
    | Fin q \<Rightarrow> if q = 0 then js ''0''
               else if q < 0 then js ''-'' @ layout (shortest (- q))
               else layout (shortest q))"

text \<open>\<^verbatim>\<open>Math.round\<close>: the nearest integer, the larger one on a tie.\<close>

definition js_round :: "jsnum \<Rightarrow> jsnum" where
  "js_round x = (case x of Fin q \<Rightarrow> Fin (of_int \<lfloor>q + 1 / 2\<rfloor>) | _ \<Rightarrow> x)"

text \<open>\<^verbatim>\<open>x || 0\<close> on a Number: \<open>NaN\<close> and 0 are falsy.\<close>

definition num_or_zero :: "jsnum \<Rightarrow> jsnum" where
  "num_or_zero x = (if x = NaN \<or> x = Fin 0 then Fin 0 else x)"

text \<open>
  A property read \<^verbatim>\<open>v.k\<close> on a parsed value, for a name \<open>k\<close> that no prototype defines (the
  program reads \<^verbatim>\<open>description\<close>, \<^verbatim>\<open>calories\<close> and \<^verbatim>\<open>protein_g\<close>): \<^verbatim>\<open>undefined\<close> (\<open>None\<close>) unless
  \<open>v\<close> is an object with that member, a \<^verbatim>\<open>TypeError\<close> on \<^verbatim>\<open>null\<close>.
\<close>

definition member :: "json \<Rightarrow> jsstring \<Rightarrow> json option" where
  "member v k = (case v of JObj ms \<Rightarrow> map_of (rev ms) k | _ \<Rightarrow> None)"

definition get_prop :: "json \<Rightarrow> jsstring \<Rightarrow> js_error + json option" where
  "get_prop v k = (case v of JNull \<Rightarrow> Inl TypeError | _ \<Rightarrow> Inr (member v k))"

definition truthy :: "json option \<Rightarrow> bool" where
  "truthy v = (case v of
      None \<Rightarrow> False
    | Some JNull \<Rightarrow> False
    | Some (JBool b) \<Rightarrow> b
    | Some (JNum n) \<Rightarrow> n \<noteq> NaN \<and> n \<noteq> Fin 0
    | Some (JStr s) \<Rightarrow> s \<noteq> []
    | Some _ \<Rightarrow> True)"

text \<open>\<^verbatim>\<open>v || d\<close> for a value that may be \<^verbatim>\<open>undefined\<close> and a default.\<close>

definition value_or :: "json option \<Rightarrow> json \<Rightarrow> json" where
  "value_or v d = (case v of None \<Rightarrow> d | Some x \<Rightarrow> if truthy v then x else d)"

definition has_key :: "jsstring \<Rightarrow> (jsstring \<times> json) list \<Rightarrow> bool" where
  "has_key k ms \<longleftrightarrow> k \<in> set (map fst ms)"

text \<open>
  \<^verbatim>\<open>String(v)\<close> and \<^verbatim>\<open>Number(v)\<close> of a parsed value. An array is joined with commas, \<^verbatim>\<open>null\<close>
  elements as the empty text. An object has no callable member, so the inherited
  \<^verbatim>\<open>toString\<close> answers \<^verbatim>\<open>[object Object]\<close>, unless a member named \<^verbatim>\<open>toString\<close> hides it: then
  no method gives a primitive and the conversion raises a \<^verbatim>\<open>TypeError\<close>.
\<close>

fun to_string :: "json \<Rightarrow> js_error + jsstring"
  and join :: "json list \<Rightarrow> js_error + jsstring" where
  "to_string JNull = Inr (js ''null'')"
| "to_string (JBool b) = Inr (if b then js ''true'' else js ''false'')"
| "to_string (JNum n) = Inr (num_to_string n)"
| "to_string (JStr s) = Inr s"
| "to_string (JArr xs) = join xs"
| "to_string (JObj ms) =
     (if has_key (js ''toString'') ms then Inl TypeError else Inr (js ''[object Object]''))"
| "join [] = Inr []"
| "join (x # xs) =
     (case (if x = JNull then Inr [] else to_string x) of
        Inl e \<Rightarrow> Inl e
      | Inr a \<Rightarrow> if xs = [] then Inr a
                 else (case join xs of Inl e \<Rightarrow> Inl e | Inr b \<Rightarrow> Inr (a @ js '','' @ b)))"

definition to_number :: "json option \<Rightarrow> js_error + jsnum" where
  "to_number v = (case v of
      None \<Rightarrow> Inr NaN
    | Some JNull \<Rightarrow> Inr (Fin 0)
    | Some (JBool b) \<Rightarrow> Inr (Fin (if b then 1 else 0))
    | Some (JNum n) \<Rightarrow> Inr n
    | Some (JStr s) \<Rightarrow> Inr (string_to_number s)
    | Some (JArr xs) \<Rightarrow> (case join xs of Inl e \<Rightarrow> Inl e | Inr s \<Rightarrow> Inr (string_to_number s))
    | Some (JObj ms) \<Rightarrow> if has_key (js ''toString'') ms then Inl TypeError else Inr NaN)"

text \<open>The text of an exception: its message, the engine's for the exceptions it raises
  itself (\<open>emsg\<close>); and \<^verbatim>\<open>String(err)\<close> for an exception without message, its name.\<close>

definition message :: "(js_error \<Rightarrow> jsstring) \<Rightarrow> js_error \<Rightarrow> jsstring" where
  "message emsg e = (case e of Error m \<Rightarrow> m | _ \<Rightarrow> emsg e)"

definition error_name :: "js_error \<Rightarrow> jsstring" where
  "error_name e = (case e of
      TypeError \<Rightarrow> js ''TypeError'' | SyntaxError \<Rightarrow> js ''SyntaxError''
    | RangeError \<Rightarrow> js ''RangeError'' | Error m \<Rightarrow> js ''Error'')"

section \<open>The estimation server\<close>

text \<open>
  \<^verbatim>\<open>extractJson\<close> of \<^verbatim>\<open>src/unnamed/part_000\<close>. The two \<^verbatim>\<open>replace\<close> calls delete every match of
  a regular expression, scanning from the left: three backquotes (code unit 96), the
  letters \<^verbatim>\<open>json\<close> in either case, and the white space behind them; then three backquotes
  and the white space behind them.
\<close>

definition lower :: "int \<Rightarrow> int" where
  "lower c = (if 65 \<le> c \<and> c \<le> 90 then c + 32 else c)"

definition at_json_fence :: "jsstring \<Rightarrow> bool" where
  "at_json_fence s \<longleftrightarrow> take 3 s = [96, 96, 96] \<and> map lower (take 4 (drop 3 s)) = js ''json''"

function strip_json_fences :: "jsstring \<Rightarrow> jsstring" where
  "strip_json_fences s =
    (case s of
       [] \<Rightarrow> []
     | c # cs \<Rightarrow> if at_json_fence s then strip_json_fences (dropWhile is_ws (drop 7 s))
                else c # strip_json_fences cs)"
  by pat_completeness auto
termination
  by (relation "measure length")
     (auto intro: le_less_trans [OF length_dropWhile_le])

declare strip_json_fences.simps [simp del]

definition at_fence :: "jsstring \<Rightarrow> bool" where
  "at_fence s \<longleftrightarrow> take 3 s = [96, 96, 96]"

function strip_fences :: "jsstring \<Rightarrow> jsstring" where
  "strip_fences s =
    (case s of
       [] \<Rightarrow> []
     | c # cs \<Rightarrow> if at_fence s then strip_fences (dropWhile is_ws (drop 3 s))
                else c # strip_fences cs)"
  by pat_completeness auto
termination
  by (relation "measure length")
     (auto intro: le_less_trans [OF length_dropWhile_le])

declare strip_fences.simps [simp del]

text \<open>\<^verbatim>\<open>indexOf\<close> and \<^verbatim>\<open>lastIndexOf\<close> of one character (\<open>-1\<close> when it does not occur), \<^verbatim>\<open>endsWith\<close>
  and \<^verbatim>\<open>slice\<close> between two positions of the text.\<close>

fun index_of :: "int \<Rightarrow> jsstring \<Rightarrow> int" where
  "index_of c [] = - 1"
| "index_of c (x # xs) = (if x = c then 0 else (let i = index_of c xs in if i = - 1 then - 1 else i + 1))"

definition last_index_of :: "int \<Rightarrow> jsstring \<Rightarrow> int" where
  "last_index_of c s = (let i = index_of c (rev s) in if i = - 1 then - 1 else int (length s) - 1 - i)"

definition ends_with :: "jsstring \<Rightarrow> jsstring \<Rightarrow> bool" where
  "ends_with s p \<longleftrightarrow> starts_with (rev s) (rev p)"

definition slice :: "jsstring \<Rightarrow> int \<Rightarrow> int \<Rightarrow> jsstring" where
  "slice s a b = take (nat (b - a)) (drop (nat a) s)"

definition extractJson :: "jsstring \<Rightarrow> jsstring" where
  "extractJson text =
    (let noFences = trim (strip_fences (strip_json_fences text))
     in if starts_with noFences (js ''{'') \<and> ends_with noFences (js ''}'') then noFences
        else (let start = index_of 123 noFences; end = last_index_of 125 noFences
              in if start \<noteq> - 1 \<and> end \<noteq> - 1 \<and> start < end then slice noFences start (end + 1)
                 else noFences))"

text \<open>
  The request as the handler sees it: the path of the uploaded file, if \<^verbatim>\<open>multer\<close> stored
  one. The surroundings: what reading a file gives, and what the model answers for an
  image (\<^verbatim>\<open>output_text\<close>, which may be missing), both of which may raise.
\<close>

record request =
  file_path :: "jsstring option"

record server_env =
  read_file :: "jsstring \<Rightarrow> js_error + int list"
  model_reply :: "int list \<Rightarrow> js_error + jsstring option"

text \<open>A response is a status and a JSON body; the handler also leaves a list of files it
  has unlinked and of errors it has logged.\<close>

record response =
  status :: int
  body :: json

record handled =
  response :: response
  unlinked :: "jsstring list"
  logged :: "js_error list"

text \<open>A Number in a JSON body: \<^verbatim>\<open>JSON.stringify\<close> writes \<^verbatim>\<open>null\<close> for what is not finite.\<close>

definition wire_num :: "jsnum \<Rightarrow> json" where
  "wire_num x = (case x of Fin q \<Rightarrow> JNum x | _ \<Rightarrow> JNull)"

text \<open>The object \<^verbatim>\<open>out\<close>: description, calories, protein, in the order of the source; any
  conversion may raise.\<close>

definition build_out :: "json \<Rightarrow> js_error + json" where
  "build_out parsed =
    (case get_prop parsed (js ''description'') of Inl e \<Rightarrow> Inl e | Inr d \<Rightarrow>
     case to_string (value_or d (JStr (js ''Food''))) of Inl e \<Rightarrow> Inl e | Inr ds \<Rightarrow>
     case get_prop parsed (js ''calories'') of Inl e \<Rightarrow> Inl e | Inr c \<Rightarrow>
     case to_number c of Inl e \<Rightarrow> Inl e | Inr cn \<Rightarrow>
     case get_prop parsed (js ''protein_g'') of Inl e \<Rightarrow> Inl e | Inr p \<Rightarrow>
     case to_number p of Inl e \<Rightarrow> Inl e | Inr pn \<Rightarrow>
       Inr (JObj [(js ''description'', JStr ds),
                  (js ''calories'', wire_num (js_round (num_or_zero cn))),
                  (js ''protein_g'', wire_num (js_round (num_or_zero pn)))]))"

definition missing_photo :: response where
  "missing_photo = \<lparr> status = 400, body = JObj [(js ''error'', JStr (js ''Missing photo''))] \<rparr>"

definition not_json :: "jsstring \<Rightarrow> response" where
  "not_json rawText = \<lparr> status = 500,
     body = JObj [(js ''error'', JStr (js ''Model did not return JSON'')), (js ''raw'', JStr rawText)] \<rparr>"

definition server_error :: "(js_error \<Rightarrow> jsstring) \<Rightarrow> js_error \<Rightarrow> response" where
  "server_error emsg e = \<lparr> status = 500,
     body = JObj [(js ''error'', JStr (js ''Server error'')),
                  (js ''details'', JStr (or_else (message emsg e) (error_name e)))] \<rparr>"

text \<open>\<^verbatim>\<open>rawText\<close>: \<^verbatim>\<open>resp.output_text?.trim() || ""\<close>.\<close>

definition raw_text :: "jsstring option \<Rightarrow> jsstring" where
  "raw_text output_text = (case output_text of None \<Rightarrow> [] | Some t \<Rightarrow> trim t)"

text \<open>The \<^verbatim>\<open>try\<close> block of the handler of \<^verbatim>\<open>POST /estimate\<close>: a response, or the exception
  that reaches the \<^verbatim>\<open>catch\<close>.\<close>

definition estimate_try :: "server_env \<Rightarrow> request \<Rightarrow> js_error + response" where
  "estimate_try env req =
    (case file_path req of
       None \<Rightarrow> Inr missing_photo
     | Some p \<Rightarrow>
        (case read_file env p of Inl e \<Rightarrow> Inl e | Inr imageBytes \<Rightarrow>
         case model_reply env imageBytes of Inl e \<Rightarrow> Inl e | Inr output_text \<Rightarrow>
           (let rawText = raw_text output_text
            in case JSON_parse (extractJson rawText) of
                 None \<Rightarrow> Inr (not_json rawText)
               | Some parsed \<Rightarrow>
                   (case build_out parsed of
                      Inl e \<Rightarrow> Inl e
                    | Inr out \<Rightarrow> Inr \<lparr> status = 200, body = out \<rparr>))))"

text \<open>The handler: \<^verbatim>\<open>try\<close>, \<^verbatim>\<open>catch\<close> (log, answer 500 "Server error") and \<^verbatim>\<open>finally\<close> (unlink the
  uploaded file when the request has one with a path).\<close>

definition estimate_handler :: "(js_error \<Rightarrow> jsstring) \<Rightarrow> server_env \<Rightarrow> request \<Rightarrow> handled" where
  "estimate_handler emsg env req =
    (let cleanup = (case file_path req of None \<Rightarrow> [] | Some p \<Rightarrow> if p \<noteq> [] then [p] else [])
     in case estimate_try env req of
          Inr r \<Rightarrow> \<lparr> response = r, unlinked = cleanup, logged = [] \<rparr>
        | Inl e \<Rightarrow> \<lparr> response = server_error emsg e, unlinked = cleanup, logged = [e] \<rparr>)"

definition health_handler :: response where
  "health_handler = \<lparr> status = 200, body = JObj [(js ''ok'', JBool True)] \<rparr>"

text \<open>The upload directory after a request: the unlinked files are gone. (\<^verbatim>\<open>fs.unlink\<close> is
  given an empty callback: the model takes the removal to succeed.)\<close>

definition uploads_after :: "jsstring set \<Rightarrow> handled \<Rightarrow> jsstring set" where
  "uploads_after files h = files - set (unlinked h)"

text \<open>
  The route \<^verbatim>\<open>POST /estimate\<close> runs \<^verbatim>\<open>upload.single("photo")\<close> before the handler. What arrives,
  as far as this middleware tells requests apart: a request without a multipart body, a
  multipart body that cannot be read as a form, or a form with its files in the order of
  the body (a part without a file name is no file to \<^verbatim>\<open>multer\<close>), each with the name of its
  field and the path under \<^verbatim>\<open>uploads/\<close> where \<^verbatim>\<open>multer\<close> stores it.
\<close>

record file_part =
  fieldname :: jsstring
  path :: jsstring

datatype wire_request = NotMultipart | Malformed | Form "file_part list"

datatype upload_error = LIMIT_UNEXPECTED_FILE | Form_error

text \<open>
  The file filter that \<^verbatim>\<open>multer\<close> wraps around the fields it was given: a counter of files
  left for the field, here one for \<open>name\<close> and none for any other field. A file that finds
  no file left ends the request with \<^verbatim>\<open>LIMIT_UNEXPECTED_FILE\<close> ("Unexpected field"); \<^verbatim>\<open>multer\<close>
  then removes the files it has stored for the request.
\<close>

fun accept_files :: "jsstring \<Rightarrow> int \<Rightarrow> file_part list \<Rightarrow> upload_error + file_part list" where
  "accept_files name filesLeft [] = Inr []"
| "accept_files name filesLeft (f # fs) =
    (if fieldname f \<noteq> name \<or> filesLeft \<le> 0 then Inl LIMIT_UNEXPECTED_FILE
     else (case accept_files name (filesLeft - 1) fs of
             Inl e \<Rightarrow> Inl e
           | Inr stored \<Rightarrow> Inr (f # stored)))"

text \<open>\<^verbatim>\<open>upload.single(name)\<close>: the request goes on to the handler with \<^verbatim>\<open>req.file\<close> set to the
  stored file, or without \<^verbatim>\<open>req.file\<close> when there was none; or it ends with an error.\<close>

definition upload_single :: "jsstring \<Rightarrow> wire_request \<Rightarrow> upload_error + request" where
  "upload_single name w =
    (case w of
       NotMultipart \<Rightarrow> Inr \<lparr> file_path = None \<rparr>
     | Malformed \<Rightarrow> Inl Form_error
     | Form files \<Rightarrow>
        (case accept_files name 1 files of
           Inl e \<Rightarrow> Inl e
         | Inr [] \<Rightarrow> Inr \<lparr> file_path = None \<rparr>
         | Inr (f # _) \<Rightarrow> Inr \<lparr> file_path = Some (path f) \<rparr>))"

text \<open>
  The route: an error of the middleware skips the handler and reaches the error handler
  of Express, which no code of the server replaces; it answers with status 500 and a page
  of HTML, no JSON. Otherwise the handler answers.
\<close>

datatype route_result = Answered handled | Refused upload_error

definition post_estimate :: "(js_error \<Rightarrow> jsstring) \<Rightarrow> server_env \<Rightarrow> wire_request \<Rightarrow> route_result" where
  "post_estimate emsg env w =
    (case upload_single (js ''photo'') w of
       Inl e \<Rightarrow> Refused e
     | Inr req \<Rightarrow> Answered (estimate_handler emsg env req))"

text \<open>What the client receives: the status, and the JSON body if the body is JSON.\<close>

definition wire_reply :: "route_result \<Rightarrow> int \<times> json option" where
  "wire_reply r = (case r of
      Answered h \<Rightarrow> (status (response h), Some (body (response h)))
    | Refused e \<Rightarrow> (500, None))"

section \<open>The client: estimating and loading\<close>

text \<open>What \<^verbatim>\<open>fetch\<close> resolves to: a status and the text of the body.\<close>

record http_response =
  http_status :: int
  http_body :: jsstring

definition fallback_message :: jsstring where
  "fallback_message = js ''Couldn'' @ [8217] @ js ''t estimate from photo. Try again.''"

text \<open>
  The \<^verbatim>\<open>try\<close> block of \<^verbatim>\<open>estimateFromPhoto\<close>, from the state with the error cleared and
  \<^verbatim>\<open>estimating\<close> set: the state after the three setters, or an exception together with the
  state reached when it was raised.
\<close>

definition estimate_try_client :: "js_error + http_response \<Rightarrow> home_state \<Rightarrow> (js_error \<times> home_state) + home_state" where
  "estimate_try_client fetched st =
    (case fetched of
       Inl e \<Rightarrow> Inl (e, st)
     | Inr resp \<Rightarrow>
         if \<not> (200 \<le> http_status resp \<and> http_status resp \<le> 299)
         then Inl (Error (js ''Server error '' @ num_to_string (Fin (of_int (http_status resp)))
                          @ js '': '' @ http_body resp), st)
         else (case JSON_parse (http_body resp) of
             None \<Rightarrow> Inl (SyntaxError, st)
           | Some data \<Rightarrow>
              (case get_prop data (js ''description'') of Inl e \<Rightarrow> Inl (e, st) | Inr d \<Rightarrow>
               let st1 = st\<lparr>desc := value_or d (JStr (js ''Food''))\<rparr>
               in case get_prop data (js ''calories'') of Inl e \<Rightarrow> Inl (e, st1) | Inr c \<Rightarrow>
                  case to_number c of Inl e \<Rightarrow> Inl (e, st1) | Inr cn \<Rightarrow>
                  let st2 = st1\<lparr>calText := num_to_string (js_round (num_or_zero cn))\<rparr>
                  in case get_prop data (js ''protein_g'') of Inl e \<Rightarrow> Inl (e, st2) | Inr p \<Rightarrow>
                     case to_number p of Inl e \<Rightarrow> Inl (e, st2) | Inr pn \<Rightarrow>
                       Inr (st2\<lparr>protText := num_to_string (js_round (num_or_zero pn))\<rparr>))))"

definition estimateFromPhoto :: "(js_error \<Rightarrow> jsstring) \<Rightarrow> js_error + http_response \<Rightarrow> home_state \<Rightarrow> home_state" where
  "estimateFromPhoto emsg fetched st =
    (if draftPhoto st = None \<or> draftPhoto st = Some [] then st
     else (case estimate_try_client fetched (st\<lparr>estimateError := None, estimating := True\<rparr>) of
             Inr st' \<Rightarrow> st'\<lparr>estimating := False\<rparr>
           | Inl (e, st') \<Rightarrow>
               st'\<lparr>estimateError := Some (or_else (message emsg e) fallback_message),
                    estimating := False\<rparr>))"

text \<open>
  The load effect of both screens: \<^verbatim>\<open>raw ? JSON.parse(raw) : []\<close> for the stored text \<open>raw\<close>
  (\<open>None\<close> when the key has no entry). The result is what \<^verbatim>\<open>setMeals\<close> is given, or the
  exception that leaves the effect.
\<close>

definition load :: "jsstring option \<Rightarrow> js_error + json" where
  "load raw = (case raw of
      None \<Rightarrow> Inr (JArr [])
    | Some s \<Rightarrow> if s = [] then Inr (JArr [])
               else (case JSON_parse s of None \<Rightarrow> Inl SyntaxError | Some v \<Rightarrow> Inr v))"

text \<open>Surroundings for examples: a file that reads as three bytes, a model with a fixed
  answer, a request with an uploaded file, and messages for the engine's exceptions.\<close>

definition example_env :: "jsstring \<Rightarrow> server_env" where
  "example_env reply = \<lparr> read_file = (\<lambda>p. Inr [255, 216, 255]), model_reply = (\<lambda>b. Inr (Some reply)) \<rparr>"

definition example_req :: request where
  "example_req = \<lparr> file_path = Some (js ''uploads/3f2a'') \<rparr>"

definition engine_messages :: "js_error \<Rightarrow> jsstring" where
  "engine_messages e = (case e of
      TypeError \<Rightarrow> js ''Cannot convert object to primitive value''
    | SyntaxError \<Rightarrow> js ''Unexpected token''
    | RangeError \<Rightarrow> js ''Invalid time value''
    | Error m \<Rightarrow> m)"

text \<open>The \<^verbatim>\<open>meals\<close> cell after the load effect: it starts as the empty array and stays so
  when the effect ends in an exception.\<close>

definition ledger_after_load :: "jsstring option \<Rightarrow> json" where
  "ledger_after_load raw = (case load raw of Inl e \<Rightarrow> JArr [] | Inr v \<Rightarrow> v)"

text \<open>A draft with a photo and typed-in values, for examples.\<close>

definition soup_draft :: home_state where
  "soup_draft = (openModal initial_state)\<lparr> desc := JStr (js ''Soup''), calText := js ''650'',
     protText := js ''40'', draftPhoto := Some (js ''file:///photo.jpg'') \<rparr>"

text \<open>Forms for examples: one photo, and one file sent under another field name.\<close>

definition photo_form :: wire_request where
  "photo_form = Form [\<lparr> fieldname = js ''photo'', path = js ''uploads/3f2a'' \<rparr>]"

definition image_form :: wire_request where
  "image_form = Form [\<lparr> fieldname = js ''image'', path = js ''uploads/9b1e'' \<rparr>]"

(*PROPERTIES*)
section \<open>Properties of the ledger\<close>

lemma d64_not_NaN: "d64 x \<noteq> NaN"
  by (simp add: d64_def Let_def)

lemma takeWhile_hd: "takeWhile P xs = [] \<longleftrightarrow> (case xs of [] \<Rightarrow> True | x # _ \<Rightarrow> \<not> P x)"
  by (cases xs) auto

lemma parseInt10_NaN_iff: "parseInt10 s = NaN \<longleftrightarrow> \<not> starts_with_integer s"
proof -
  define t where "t = dropWhile is_ws s"
  have "parseInt10 s = NaN \<longleftrightarrow>
      takeWhile is_digit (case t of [] \<Rightarrow> [] | c # cs \<Rightarrow> if c = 43 \<or> c = 45 then cs else t) = []"
    unfolding parseInt10_def Let_def t_def [symmetric] by (simp add: d64_not_NaN)
  also have "\<dots> \<longleftrightarrow> \<not> (case t of [] \<Rightarrow> False
       | c # cs \<Rightarrow> if c = 43 \<or> c = 45 then (case cs of [] \<Rightarrow> False | k # _ \<Rightarrow> is_digit k)
                else is_digit c)"
    by (auto simp: takeWhile_hd split: list.splits)
  finally show ?thesis unfolding starts_with_integer_def t_def [symmetric] .
qed

lemma saveMeal_alert:
  "parseInt10 (or_else (calText st) (js ''0'')) = NaN \<or> parseInt10 (or_else (protText st) (js ''0'')) = NaN
   \<Longrightarrow> saveMeal env st = (invalid_input, st)"
  by (auto simp: saveMeal_def invalid_input_def Let_def)

lemma saveMeal_throw:
  "parseInt10 (or_else (calText st) (js ''0'')) \<noteq> NaN \<Longrightarrow> parseInt10 (or_else (protText st) (js ''0'')) \<noteq> NaN
   \<Longrightarrow> trim_method (desc st) = Inl e \<Longrightarrow> saveMeal env st = (Threw e, st)"
  by (simp add: saveMeal_def Let_def)

lemma saveMeal_saved:
  "parseInt10 (or_else (calText st) (js ''0'')) \<noteq> NaN \<Longrightarrow> parseInt10 (or_else (protText st) (js ''0'')) \<noteq> NaN
   \<Longrightarrow> trim_method (desc st) = Inr d \<Longrightarrow>
   saveMeal env st = (case write_error env of
       None \<Rightarrow> (Done, st\<lparr>meals := new_meal env st d # meals st,
                        writes := (new_meal env st d # meals st) # writes st, showModal := False\<rparr>)
     | Some e \<Rightarrow> (Threw e, st\<lparr>meals := new_meal env st d # meals st\<rparr>))"
  by (simp add: saveMeal_def Let_def persist_def new_meal_def new_id_def split: option.splits)

lemma saveMeal_outcome_cases:
  "saveMeal env st = (invalid_input, st) \<and>
      (parseInt10 (or_else (calText st) (js ''0'')) = NaN \<or> parseInt10 (or_else (protText st) (js ''0'')) = NaN)
   \<or> (\<exists>e. fst (saveMeal env st) = Threw e) \<or> fst (saveMeal env st) = Done"
proof (cases "parseInt10 (or_else (calText st) (js ''0'')) = NaN \<or> parseInt10 (or_else (protText st) (js ''0'')) = NaN")
  case True
  then show ?thesis using saveMeal_alert by blast
next
  case False
  then have c: "parseInt10 (or_else (calText st) (js ''0'')) \<noteq> NaN"
    and p: "parseInt10 (or_else (protText st) (js ''0'')) \<noteq> NaN" by auto
  show ?thesis
  proof (cases "trim_method (desc st)")
    case (Inl e)
    then show ?thesis using saveMeal_throw [OF c p] by simp
  next
    case (Inr d)
    then show ?thesis using saveMeal_saved [OF c p Inr, of env] by (simp split: option.splits)
  qed
qed

lemma parseInt10_zero: "parseInt10 [48] = Fin 0"
  by code_simp

text \<open>
  Claim C1, amended. \<^verbatim>\<open>saveMeal\<close> answers with the "Invalid input" alert exactly when one of
  the two fields (a blank field read as \<^verbatim>\<open>0\<close>) does not start with an integer, that is when
  \<^verbatim>\<open>parseInt\<close> gives \<open>NaN\<close>; then the whole state, ledger and store writes included, is as
  before. With both fields blank and a string as description the ledger gets a new first
  meal with 0 calories and 0 grams of protein. The check is for \<open>NaN\<close> only: a negative
  number, or digits followed by other text, is accepted.
\<close>

theorem saveMeal_rejects_iff_no_integer:
  "(fst (saveMeal env st) = invalid_input \<longleftrightarrow>
      \<not> starts_with_integer (or_else (calText st) (js ''0'')) \<or>
      \<not> starts_with_integer (or_else (protText st) (js ''0'')))
   \<and> (fst (saveMeal env st) = invalid_input \<longrightarrow> snd (saveMeal env st) = st)
   \<and> (calText st = [] \<and> protText st = [] \<and> desc st = JStr d \<longrightarrow>
        (\<exists>m. meals (snd (saveMeal env st)) = m # meals st \<and> calories m = Fin 0 \<and> protein_g m = Fin 0))"
proof (intro conjI impI)
  show "fst (saveMeal env st) = invalid_input \<longleftrightarrow>
      \<not> starts_with_integer (or_else (calText st) (js ''0'')) \<or>
      \<not> starts_with_integer (or_else (protText st) (js ''0''))"
    using saveMeal_outcome_cases [of env st] saveMeal_alert [of st env]
    by (auto simp: parseInt10_NaN_iff invalid_input_def)
next
  assume "fst (saveMeal env st) = invalid_input"
  then show "snd (saveMeal env st) = st"
    using saveMeal_outcome_cases [of env st] by (auto simp: invalid_input_def)
next
  assume a: "calText st = [] \<and> protText st = [] \<and> desc st = JStr d"
  then have c: "parseInt10 (or_else (calText st) (js ''0'')) = Fin 0"
    and p: "parseInt10 (or_else (protText st) (js ''0'')) = Fin 0"
    by (simp_all add: or_else_def parseInt10_zero)
  from a have t: "trim_method (desc st) = Inr (trim d)" by (simp add: trim_method_def)
  have c': "parseInt10 (or_else (calText st) (js ''0'')) \<noteq> NaN"
    and p': "parseInt10 (or_else (protText st) (js ''0'')) \<noteq> NaN"
    using c p by simp_all
  note saveMeal_saved [OF c' p' t, of env]
  then have "meals (snd (saveMeal env st)) = new_meal env st (trim d) # meals st"
    by (simp split: option.splits)
  moreover have "calories (new_meal env st (trim d)) = Fin 0" "protein_g (new_meal env st (trim d)) = Fin 0"
    using c p by (simp_all add: new_meal_def)
  ultimately show "\<exists>m. meals (snd (saveMeal env st)) = m # meals st \<and> calories m = Fin 0 \<and> protein_g m = Fin 0"
    by blast
qed

theorem saveMeal_rejects_iff_no_integer_witness:
  "saveMeal env_a ((openModal initial_state)\<lparr>calText := js ''abc''\<rparr>)
     = (invalid_input, (openModal initial_state)\<lparr>calText := js ''abc''\<rparr>)
   \<and> map calories (meals (snd (saveMeal env_a (openModal initial_state)))) = [Fin 0]
   \<and> map protein_g (meals (snd (saveMeal env_a (openModal initial_state)))) = [Fin 0]"
proof -
  let ?bad = "(openModal initial_state)\<lparr>calText := js ''abc''\<rparr>"
  have b: "\<not> starts_with_integer (or_else (calText ?bad) (js ''0''))"
    by (simp add: starts_with_integer_def or_else_def openModal_def is_ws_def is_digit_def)
  have "fst (saveMeal env_a ?bad) = invalid_input \<and> snd (saveMeal env_a ?bad) = ?bad"
    using saveMeal_rejects_iff_no_integer [of env_a ?bad "[]"] b by blast
  then have 1: "saveMeal env_a ?bad = (invalid_input, ?bad)"
    by (metis prod.collapse)
  have "calText (openModal initial_state) = [] \<and> protText (openModal initial_state) = []
      \<and> desc (openModal initial_state) = JStr []"
    by (simp add: openModal_def)
  then obtain m where "meals (snd (saveMeal env_a (openModal initial_state))) = m # meals (openModal initial_state)"
      "calories m = Fin 0" "protein_g m = Fin 0"
    using saveMeal_rejects_iff_no_integer [of env_a "openModal initial_state" "[]"] by blast
  then have 2: "map calories (meals (snd (saveMeal env_a (openModal initial_state)))) = [Fin 0]"
      "map protein_g (meals (snd (saveMeal env_a (openModal initial_state)))) = [Fin 0]"
    by (simp_all add: openModal_def initial_state_def)
  from 1 2 show ?thesis by simp
qed

text \<open>Counterexample to C1 as stated: \<^verbatim>\<open>-5\<close> is not a non-negative integer and \<^verbatim>\<open>12abc\<close> is
  not an integer, yet the meal is saved, with -5 calories and 12 grams of protein.\<close>

theorem saveMeal_accepts_negative_and_trailing_text:
  "saveMeal env_a ((openModal initial_state)\<lparr>calText := js ''-5'', protText := js ''12abc''\<rparr>)
   = (Done, (openModal initial_state)\<lparr>calText := js ''-5'', protText := js ''12abc'',
        meals := [\<lparr> id' = js ''m8w9w340.i'', ts = Fin 1743377400000, description = js ''Meal'',
                    calories = Fin (- 5), protein_g = Fin 12, photoUri = None \<rparr>],
        writes := [[\<lparr> id' = js ''m8w9w340.i'', ts = Fin 1743377400000, description = js ''Meal'',
                    calories = Fin (- 5), protein_g = Fin 12, photoUri = None \<rparr>]],
        showModal := False\<rparr>)"
  by code_simp





section \<open>Properties of the week screen\<close>

text \<open>
  Claim C3 says that \<^verbatim>\<open>lastNDays(7)\<close> lists seven calendar days, today first, each one day
  before the one in front of it. The code steps back with \<^verbatim>\<open>setDate\<close>, which works on local
  time, and prints with \<^verbatim>\<open>toISOString\<close>, which works on UTC. On a device in Europe/London at
  2025-03-30T23:30:00Z (00:30 local time on 31 March, the day after the clocks went
  forward) the step back by one day lands on 00:30 local time on 30 March, which is
  2025-03-30T00:30:00Z: the first two entries are the same day.
\<close>

theorem lastNDays_london_repeats_a_day:
  "lastNDays london_2025 1743377400000 7
     = Inr [js ''2025-03-30'', js ''2025-03-30'', js ''2025-03-29'', js ''2025-03-28'',
            js ''2025-03-27'', js ''2025-03-26'', js ''2025-03-25'']"
  by code_simp

text \<open>
  Claim C7 says that the totals of the week count every meal of the seven days once. At
  the same place and time the day 2025-03-30 is listed twice, and the one meal of the
  ledger, 650 kcal and 40 g, is counted twice: the week shows 1300 kcal and 80 g.
\<close>

theorem week_london_counts_a_meal_twice:
  "week london_2025 1743377400000 [lunch]
     = Inr ([\<lparr> day = js ''2025-03-30'', day_calories = Fin 650, day_protein = Fin 40 \<rparr>,
             \<lparr> day = js ''2025-03-30'', day_calories = Fin 650, day_protein = Fin 40 \<rparr>,
             \<lparr> day = js ''2025-03-29'', day_calories = Fin 0, day_protein = Fin 0 \<rparr>,
             \<lparr> day = js ''2025-03-28'', day_calories = Fin 0, day_protein = Fin 0 \<rparr>,
             \<lparr> day = js ''2025-03-27'', day_calories = Fin 0, day_protein = Fin 0 \<rparr>,
             \<lparr> day = js ''2025-03-26'', day_calories = Fin 0, day_protein = Fin 0 \<rparr>,
             \<lparr> day = js ''2025-03-25'', day_calories = Fin 0, day_protein = Fin 0 \<rparr>],
            (Fin 1300, Fin 80))"
  by code_simp

section \<open>Properties of the estimation server\<close>

lemma estimate_handler_unlinked:
  "unlinked (estimate_handler emsg env req)
     = (case file_path req of None \<Rightarrow> [] | Some p \<Rightarrow> if p \<noteq> [] then [p] else [])"
  by (simp add: estimate_handler_def Let_def split: sum.splits)

text \<open>
  Claim C8. A request that came with an uploaded file (stored under a non-empty path, as
  \<^verbatim>\<open>multer\<close> does) has that file unlinked by the \<^verbatim>\<open>finally\<close> block, whatever reading the file
  and the model give: success, a failed read or upstream call, output that does not
  parse, or a conversion that raises. Afterwards the file is not in the upload directory.
\<close>

theorem estimate_handler_removes_upload:
  assumes "file_path req = Some p" and "p \<noteq> []"
  shows "unlinked (estimate_handler emsg env req) = [p]
     \<and> p \<notin> uploads_after files (estimate_handler emsg env req)"
  using assms by (simp add: estimate_handler_unlinked uploads_after_def)

theorem estimate_handler_removes_upload_witness:
  "unlinked (estimate_handler engine_messages (example_env (js ''no numbers today'')) example_req)
      = [js ''uploads/3f2a'']
   \<and> js ''uploads/3f2a'' \<notin> uploads_after {js ''uploads/3f2a'', js ''uploads/77c0''}
        (estimate_handler engine_messages (example_env (js ''no numbers today'')) example_req)"
proof -
  have f: "file_path example_req = Some (js ''uploads/3f2a'')"
    by (simp add: example_req_def)
  have n: "js ''uploads/3f2a'' \<noteq> []" by simp
  from estimate_handler_removes_upload [OF f n] show ?thesis by blast
qed

lemma estimate_try_cases:
  "estimate_try env req =
    (case file_path req of
       None \<Rightarrow> Inr missing_photo
     | Some p \<Rightarrow>
        (case read_file env p of Inl e \<Rightarrow> Inl e | Inr imageBytes \<Rightarrow>
         case model_reply env imageBytes of Inl e \<Rightarrow> Inl e | Inr ot \<Rightarrow>
           (case JSON_parse (extractJson (raw_text ot)) of
                 None \<Rightarrow> Inr (not_json (raw_text ot))
               | Some parsed \<Rightarrow>
                   (case build_out parsed of
                      Inl e \<Rightarrow> Inl e
                    | Inr out \<Rightarrow> Inr \<lparr> status = 200, body = out \<rparr>))))"
  by (simp add: estimate_try_def Let_def split: option.splits sum.splits)

lemma response_distinct:
  "server_error emsg e \<noteq> missing_photo" "server_error emsg e \<noteq> not_json raw"
  "not_json raw \<noteq> missing_photo" "\<lparr> status = 200, body = out \<rparr> \<noteq> missing_photo"
  "\<lparr> status = 200, body = out \<rparr> \<noteq> not_json raw"
  by (simp_all add: server_error_def missing_photo_def not_json_def)

lemma not_json_inject: "not_json a = not_json b \<longleftrightarrow> a = b"
  by (simp add: not_json_def)

lemma estimate_handler_response:
  "response (estimate_handler emsg env req)
     = (case estimate_try env req of Inr r \<Rightarrow> r | Inl e \<Rightarrow> server_error emsg e)"
  by (simp add: estimate_handler_def Let_def split: sum.splits)

lemma response_missing_photo_iff:
  "response (estimate_handler emsg env req) = missing_photo \<longleftrightarrow> file_path req = None"
  by (auto simp: estimate_handler_response estimate_try_cases response_distinct
      split: option.splits sum.splits)

lemma response_not_json_iff:
  "response (estimate_handler emsg env req) = not_json raw \<longleftrightarrow>
     (\<exists>p bytes ot. file_path req = Some p \<and> read_file env p = Inr bytes
        \<and> model_reply env bytes = Inr ot \<and> raw = raw_text ot
        \<and> JSON_parse (extractJson raw) = None)"
  by (auto simp: estimate_handler_response estimate_try_cases response_distinct not_json_inject
      response_distinct [symmetric] split: option.splits sum.splits)

lemma accept_files_single:
  "accept_files name 1 files =
    (case files of
       [] \<Rightarrow> Inr []
     | [f] \<Rightarrow> if fieldname f = name then Inr [f] else Inl LIMIT_UNEXPECTED_FILE
     | f # g # _ \<Rightarrow> Inl LIMIT_UNEXPECTED_FILE)"
proof (cases files)
  case Nil
  then show ?thesis by simp
next
  case (Cons f fs)
  then show ?thesis by (cases fs) simp_all
qed

lemma upload_single_cases:
  "upload_single name w =
    (case w of
       NotMultipart \<Rightarrow> Inr \<lparr> file_path = None \<rparr>
     | Malformed \<Rightarrow> Inl Form_error
     | Form [] \<Rightarrow> Inr \<lparr> file_path = None \<rparr>
     | Form [f] \<Rightarrow> if fieldname f = name then Inr \<lparr> file_path = Some (path f) \<rparr>
                   else Inl LIMIT_UNEXPECTED_FILE
     | Form (f # g # _) \<Rightarrow> Inl LIMIT_UNEXPECTED_FILE)"
  by (simp add: upload_single_def accept_files_single split: wire_request.splits list.splits)

lemma wire_reply_post_estimate:
  "wire_reply (post_estimate emsg env w) =
    (case upload_single (js ''photo'') w of
       Inl e \<Rightarrow> (500, None)
     | Inr req \<Rightarrow> (status (response (estimate_handler emsg env req)),
                   Some (body (response (estimate_handler emsg env req)))))"
  by (simp add: wire_reply_def post_estimate_def split: sum.splits)

lemma wire_reply_eq_iff:
  "wire_reply (post_estimate emsg env w) = (status r, Some (body r))
     \<longleftrightarrow> (\<exists>req. upload_single (js ''photo'') w = Inr req
            \<and> response (estimate_handler emsg env req) = r)"
  by (auto simp: wire_reply_post_estimate split: sum.splits intro: response.equality)

text \<open>
  Claim C5, amended. \<^verbatim>\<open>POST /estimate\<close> answers 400 with \<^verbatim>\<open>{"error": "Missing photo"}\<close> exactly
  when the request carries no file at all: it has no multipart body, or its form has no
  file. A form that cannot be read, a file in a field other than \<^verbatim>\<open>photo\<close>, or a second file
  never reaches the handler: \<^verbatim>\<open>upload.single("photo")\<close> ends the request with an error, and
  the answer is the 500 page of Express, which is no JSON. The route answers 500 with
  \<^verbatim>\<open>{"error": "Model did not return JSON", "raw": raw}\<close> exactly when the form carries one file,
  in the field \<^verbatim>\<open>photo\<close>, reading it and the call of the model succeed, \<open>raw\<close> is the trimmed
  output of the model, and the text that \<^verbatim>\<open>extractJson\<close> takes from \<open>raw\<close> does not parse as JSON.
  \<^verbatim>\<open>GET /health\<close> answers 200 with \<^verbatim>\<open>{"ok": true}\<close>.
\<close>

theorem estimate_error_responses:
  "(wire_reply (post_estimate emsg env w)
        = (400, Some (JObj [(js ''error'', JStr (js ''Missing photo''))]))
      \<longleftrightarrow> w = NotMultipart \<or> w = Form [])
   \<and> (wire_reply (post_estimate emsg env w)
        = (500, Some (JObj [(js ''error'', JStr (js ''Model did not return JSON'')),
                            (js ''raw'', JStr raw)]))
      \<longleftrightarrow> (\<exists>f bytes ot. w = Form [f] \<and> fieldname f = js ''photo''
             \<and> read_file env (path f) = Inr bytes
             \<and> model_reply env bytes = Inr ot \<and> raw = raw_text ot
             \<and> JSON_parse (extractJson raw) = None))
   \<and> (wire_reply (post_estimate emsg env w) = (500, None)
      \<longleftrightarrow> w = Malformed
          \<or> (\<exists>files. w = Form files
                \<and> (2 \<le> length files \<or> (\<exists>f \<in> set files. fieldname f \<noteq> js ''photo''))))
   \<and> health_handler = \<lparr> status = 200, body = JObj [(js ''ok'', JBool True)] \<rparr>"
proof -
  let ?mp = "(400, Some (JObj [(js ''error'', JStr (js ''Missing photo''))])) :: int \<times> json option"
  let ?nj = "(500, Some (JObj [(js ''error'', JStr (js ''Model did not return JSON'')),
                            (js ''raw'', JStr raw)])) :: int \<times> json option"
  have mp: "?mp = (status missing_photo, Some (body missing_photo))"
    by (simp add: missing_photo_def)
  have nj: "?nj = (status (not_json raw), Some (body (not_json raw)))"
    by (simp add: not_json_def)
  have a: "wire_reply (post_estimate emsg env w) = ?mp \<longleftrightarrow> w = NotMultipart \<or> w = Form []"
    unfolding mp wire_reply_eq_iff response_missing_photo_iff upload_single_cases
    by (cases w) (auto split: list.splits)
  have b: "wire_reply (post_estimate emsg env w) = ?nj
      \<longleftrightarrow> (\<exists>f bytes ot. w = Form [f] \<and> fieldname f = js ''photo''
             \<and> read_file env (path f) = Inr bytes
             \<and> model_reply env bytes = Inr ot \<and> raw = raw_text ot
             \<and> JSON_parse (extractJson raw) = None)"
    unfolding nj wire_reply_eq_iff response_not_json_iff upload_single_cases
    by (cases w) (auto split: list.splits)
  have c: "wire_reply (post_estimate emsg env w) = (500, None)
      \<longleftrightarrow> w = Malformed
          \<or> (\<exists>files. w = Form files
                \<and> (2 \<le> length files \<or> (\<exists>f \<in> set files. fieldname f \<noteq> js ''photo'')))"
    unfolding wire_reply_post_estimate upload_single_cases
    by (cases w) (auto split: list.splits)
  have d: "health_handler = \<lparr> status = 200, body = JObj [(js ''ok'', JBool True)] \<rparr>"
    by (simp add: health_handler_def)
  from a b c d show ?thesis by blast
qed

theorem estimate_error_responses_witness:
  "wire_reply (post_estimate engine_messages (example_env (js ''no numbers today'')) photo_form)
      = (500, Some (JObj [(js ''error'', JStr (js ''Model did not return JSON'')),
                          (js ''raw'', JStr (js ''no numbers today''))]))
   \<and> wire_reply (post_estimate engine_messages (example_env (js ''no numbers today'')) (Form []))
      = (400, Some (JObj [(js ''error'', JStr (js ''Missing photo''))]))
   \<and> wire_reply (post_estimate engine_messages (example_env (js ''no numbers today'')) image_form)
      = (500, None)"
proof -
  let ?env = "example_env (js ''no numbers today'')"
  let ?f = "\<lparr> fieldname = js ''photo'', path = js ''uploads/3f2a'' \<rparr>"
  let ?g = "\<lparr> fieldname = js ''image'', path = js ''uploads/9b1e'' \<rparr>"
  have r: "read_file ?env (path ?f) = Inr [255, 216, 255]"
    by (simp add: example_env_def)
  have m: "model_reply ?env [255, 216, 255] = Inr (Some (js ''no numbers today''))"
    by (simp add: example_env_def)
  have t: "js ''no numbers today'' = raw_text (Some (js ''no numbers today''))"
    by code_simp
  have p: "JSON_parse (extractJson (js ''no numbers today'')) = None"
    by code_simp
  have "\<exists>f bytes ot. photo_form = Form [f] \<and> fieldname f = js ''photo''
             \<and> read_file ?env (path f) = Inr bytes
             \<and> model_reply ?env bytes = Inr ot \<and> js ''no numbers today'' = raw_text ot
             \<and> JSON_parse (extractJson (js ''no numbers today'')) = None"
    unfolding photo_form_def using r m t p by (intro exI [of _ ?f] exI conjI) (rule refl | simp | assumption)+
  with estimate_error_responses [of engine_messages ?env photo_form "js ''no numbers today''"]
  have 1: "wire_reply (post_estimate engine_messages ?env photo_form)
      = (500, Some (JObj [(js ''error'', JStr (js ''Model did not return JSON'')),
                          (js ''raw'', JStr (js ''no numbers today''))]))"
    by blast
  from estimate_error_responses [of engine_messages ?env "Form []" "[]"]
  have 2: "wire_reply (post_estimate engine_messages ?env (Form []))
      = (400, Some (JObj [(js ''error'', JStr (js ''Missing photo''))]))"
    by blast
  have "\<exists>files. image_form = Form files
                \<and> (2 \<le> length files \<or> (\<exists>f \<in> set files. fieldname f \<noteq> js ''photo''))"
    unfolding image_form_def by (intro exI [of _ "[?g]"]) simp
  with estimate_error_responses [of engine_messages ?env image_form "[]"]
  have 3: "wire_reply (post_estimate engine_messages ?env image_form) = (500, None)"
    by blast
  from 1 2 3 show ?thesis by blast
qed

text \<open>
  Counterexample to C5 as stated. The first output of the model is not JSON, yet the
  answer is 200: \<^verbatim>\<open>extractJson\<close> cuts the object out of the sentence. The second output is
  JSON, an array of two objects, yet the answer is 500 "Model did not return JSON":
  \<^verbatim>\<open>extractJson\<close> cuts from the first \<^verbatim>\<open>{\<close> to the last \<^verbatim>\<open>}\<close> and drops the brackets.
\<close>

theorem estimate_not_json_differs_from_unparsable:
  \<open>JSON_parse (js ''Sure: {"calories": 5}'') = None
   \<and> response (estimate_handler engine_messages (example_env (js ''Sure: {"calories": 5}'')) example_req)
       = \<lparr> status = 200, body = JObj [(js ''description'', JStr (js ''Food'')),
            (js ''calories'', JNum (Fin 5)), (js ''protein_g'', JNum (Fin 0))] \<rparr>
   \<and> JSON_parse (js ''[{"a":1},{"b":2}]'')
       = Some (JArr [JObj [(js ''a'', JNum (Fin 1))], JObj [(js ''b'', JNum (Fin 2))]])
   \<and> response (estimate_handler engine_messages (example_env (js ''[{"a":1},{"b":2}]'')) example_req)
       = not_json (js ''[{"a":1},{"b":2}]'')\<close>
  by code_simp

lemma not_ws_marks: "\<not> is_ws 96" "\<not> is_ws 123" "\<not> is_ws 125"
  by (simp_all add: is_ws_def)

lemma strip_json_fences_Nil: "strip_json_fences [] = []"
  by (simp add: strip_json_fences.simps)

lemma strip_fences_Nil: "strip_fences [] = []"
  by (simp add: strip_fences.simps)

lemma strip_json_fences_other: "c \<noteq> 96 \<Longrightarrow> strip_json_fences (c # s) = c # strip_json_fences s"
  by (subst strip_json_fences.simps) (simp add: at_json_fence_def)

lemma strip_fences_other: "c \<noteq> 96 \<Longrightarrow> strip_fences (c # s) = c # strip_fences s"
  by (subst strip_fences.simps) (simp add: at_fence_def)

lemma strip_json_fences_append: "96 \<notin> set xs \<Longrightarrow> strip_json_fences (xs @ ys) = xs @ strip_json_fences ys"
  by (induction xs) (auto simp: strip_json_fences_other)

lemma strip_fences_append: "96 \<notin> set xs \<Longrightarrow> strip_fences (xs @ ys) = xs @ strip_fences ys"
  by (induction xs) (auto simp: strip_fences_other)

lemma strip_json_fences_plain: "96 \<notin> set xs \<Longrightarrow> strip_json_fences xs = xs"
  using strip_json_fences_append [of xs "[]"] by (simp add: strip_json_fences_Nil)

lemma strip_fences_plain: "96 \<notin> set xs \<Longrightarrow> strip_fences xs = xs"
  using strip_fences_append [of xs "[]"] by (simp add: strip_fences_Nil)

lemma dropWhile_ws_all: "\<forall>c \<in> set w. is_ws c \<Longrightarrow> dropWhile is_ws w = []"
  by simp

lemma dropWhile_ws_prefix:
  "\<forall>c \<in> set w. is_ws c \<Longrightarrow> \<not> is_ws x \<Longrightarrow> dropWhile is_ws (w @ x # r) = x # r"
  by (simp add: dropWhile_append3)

lemma ws_not_mark: "\<forall>c \<in> set w. is_ws c \<Longrightarrow> 96 \<notin> set w"
  using not_ws_marks(1) by blast

lemma strip_json_fences_open:
  assumes "map lower tag = js ''json''"
  shows "strip_json_fences ([96, 96, 96] @ tag @ r) = strip_json_fences (dropWhile is_ws r)"
proof -
  from assms have "length (map lower tag) = 4" by simp
  then have l: "length tag = 4" by simp
  then have "at_json_fence ([96, 96, 96] @ tag @ r)"
    using assms by (simp add: at_json_fence_def)
  moreover have "drop 7 ([96, 96, 96] @ tag @ r) = r" using l by simp
  ultimately show ?thesis
    by (subst strip_json_fences.simps) simp
qed

lemma lower_ws: "is_ws c \<Longrightarrow> lower c \<noteq> 106"
  by (auto simp: is_ws_def lower_def split: if_splits)

lemma strip_json_fences_close:
  assumes "\<forall>c \<in> set w. is_ws c"
  shows "strip_json_fences ([96, 96, 96] @ w) = [96, 96, 96] @ w"
proof -
  have w: "strip_json_fences w = w"
    using assms by (simp add: strip_json_fences_plain ws_not_mark)
  have a: "\<not> at_json_fence ([96, 96, 96] @ w)"
    using assms lower_ws by (cases w) (auto simp: at_json_fence_def)
  have b: "\<not> at_json_fence ([96, 96] @ w)"
    using assms not_ws_marks(1) by (cases w) (auto simp: at_json_fence_def)
  have c: "\<not> at_json_fence ([96] @ w)"
    using assms not_ws_marks(1) by (cases w; cases "tl w") (auto simp: at_json_fence_def)
  have 1: "strip_json_fences ([96] @ w) = [96] @ w"
    using c w by (subst strip_json_fences.simps) simp
  have 2: "strip_json_fences ([96, 96] @ w) = [96, 96] @ w"
    using b 1 by (subst strip_json_fences.simps) simp
  show ?thesis
    using a 2 by (subst strip_json_fences.simps) simp
qed

lemma strip_fences_close:
  assumes "\<forall>c \<in> set w. is_ws c"
  shows "strip_fences ([96, 96, 96] @ w) = []"
proof -
  have d: "dropWhile is_ws w = []"
    using assms by simp
  have "strip_fences ([96, 96, 96] @ w) = strip_fences (dropWhile is_ws w)"
    by (subst strip_fences.simps) (simp add: at_fence_def)
  then show ?thesis
    unfolding d by (simp add: strip_fences_Nil)
qed

lemma braces:
  assumes "starts_with J (js ''{'')" and "ends_with J (js ''}'')"
  shows "\<exists>M. J = 123 # M @ [125]"
proof -
  from assms(1) obtain K where k: "J = 123 # K"
    by (cases J) (auto simp: starts_with_def)
  from assms(2) have "take 1 (rev J) = [125]" by (simp add: ends_with_def starts_with_def)
  then obtain R where "rev J = 125 # R" by (cases "rev J") auto
  then have j: "J = rev R @ [125]" by (metis rev_rev_ident rev.simps(2))
  with k have "K \<noteq> []" by auto
  with k j have "K = butlast K @ [125]"
    by (metis append_butlast_last_id last_ConsR last_snoc)
  with k show ?thesis by metis
qed

lemma trim_core:
  assumes "\<not> is_ws a" and "\<not> is_ws b"
  shows "trim (P @ a # M @ b # S) = dropWhile is_ws P @ a # M @ b # rev (dropWhile is_ws (rev S))"
proof -
  have 1: "dropWhile is_ws (P @ a # M @ b # S) = dropWhile is_ws P @ a # M @ b # S"
    using assms(1) by (simp add: dropWhile_append3)
  have 2: "rev (dropWhile is_ws P @ a # M @ b # S) = rev S @ b # (rev M @ a # rev (dropWhile is_ws P))"
    by simp
  have 3: "dropWhile is_ws (rev S @ b # (rev M @ a # rev (dropWhile is_ws P)))
      = dropWhile is_ws (rev S) @ b # (rev M @ a # rev (dropWhile is_ws P))"
    using assms(2) by (rule dropWhile_append3)
  show ?thesis unfolding trim_def 1 2 3 by simp
qed

lemma index_of_first: "c \<notin> set xs \<Longrightarrow> index_of c (xs @ c # ys) = int (length xs)"
  by (induction xs) (auto simp: Let_def)

lemma last_index_of_last:
  assumes "c \<notin> set ys"
  shows "last_index_of c (xs @ c # ys) = int (length xs)"
proof -
  have "index_of c (rev (xs @ c # ys)) = int (length (rev ys))"
    using index_of_first [of c "rev ys" "rev xs"] assms by simp
  then show ?thesis by (simp add: last_index_of_def Let_def)
qed

lemma extractJson_span:
  assumes "trim (strip_fences (strip_json_fences text)) = A @ 123 # M @ 125 # B"
    and "123 \<notin> set A" and "125 \<notin> set B"
  shows "extractJson text = 123 # M @ [125]"
proof -
  let ?t = "A @ 123 # M @ 125 # B"
  have s: "index_of 123 ?t = int (length A)"
    using assms(2) by (rule index_of_first)
  have e: "last_index_of 125 ?t = int (length A + 1 + length M)"
    using last_index_of_last [of 125 B "A @ 123 # M"] assms(3) by simp
  have sl: "slice ?t (int (length A)) (int (length A + 1 + length M) + 1) = 123 # M @ [125]"
    by (simp add: slice_def nat_add_distrib)
  have w: "starts_with ?t (js ''{'') \<and> ends_with ?t (js ''}'') \<Longrightarrow> ?t = 123 # M @ [125]"
  proof -
    assume h: "starts_with ?t (js ''{'') \<and> ends_with ?t (js ''}'')"
    have "A = []"
    proof (cases A)
      case (Cons a A')
      with h assms(2) show ?thesis by (auto simp: starts_with_def)
    qed simp
    moreover have "B = []"
    proof (cases "rev B")
      case (Cons b B')
      then have "B = rev B' @ [b]" by (metis rev_rev_ident rev.simps(2))
      with h assms(3) show ?thesis by (auto simp: ends_with_def starts_with_def)
    qed simp
    ultimately show ?thesis by simp
  qed
  show ?thesis
    unfolding extractJson_def Let_def assms(1) s e sl using w by auto
qed

lemma extractJson_fenced:
  assumes "starts_with J (js ''{'')" and "ends_with J (js ''}'')" and "96 \<notin> set J"
    and "map lower tag = js ''json''" and "\<forall>c \<in> set (w1 @ w2 @ w3). is_ws c"
  shows "extractJson ([96, 96, 96] @ tag @ w1 @ J @ w2 @ [96, 96, 96] @ w3) = J"
proof -
  from braces [OF assms(1,2)] obtain M where j: "J = 123 # M @ [125]" by blast
  have w: "\<forall>c \<in> set w1. is_ws c" "\<forall>c \<in> set w2. is_ws c" "\<forall>c \<in> set w3. is_ws c"
    using assms(5) by auto
  have n: "96 \<notin> set (J @ w2)"
    using assms(3) ws_not_mark [OF w(2)] by simp
  have d: "dropWhile is_ws (w1 @ J @ w2 @ [96, 96, 96] @ w3) = J @ w2 @ [96, 96, 96] @ w3"
    unfolding j using dropWhile_ws_prefix [OF w(1) not_ws_marks(2)] by simp
  have 1: "strip_json_fences ([96, 96, 96] @ tag @ w1 @ J @ w2 @ [96, 96, 96] @ w3)
      = (J @ w2) @ [96, 96, 96] @ w3"
    unfolding strip_json_fences_open [OF assms(4)] d
    using strip_json_fences_append [OF n, of "[96, 96, 96] @ w3"] strip_json_fences_close [OF w(3)]
    by simp
  have 2: "strip_fences ((J @ w2) @ [96, 96, 96] @ w3) = J @ w2"
    using strip_fences_append [OF n, of "[96, 96, 96] @ w3"] strip_fences_close [OF w(3)]
    by simp
  have r: "dropWhile is_ws (rev w2) = []"
    using w(2) by simp
  have 3: "trim (J @ w2) = [] @ 123 # M @ 125 # []"
    using trim_core [OF not_ws_marks(2,3), of "[]" M w2] unfolding j r by simp
  have t: "trim (strip_fences (strip_json_fences ([96, 96, 96] @ tag @ w1 @ J @ w2 @ [96, 96, 96] @ w3)))
      = [] @ 123 # M @ 125 # []"
    unfolding 1 2 3 ..
  have "extractJson ([96, 96, 96] @ tag @ w1 @ J @ w2 @ [96, 96, 96] @ w3) = 123 # M @ [125]"
    by (rule extractJson_span [OF t]) simp_all
  then show ?thesis unfolding j .
qed

lemma extractJson_embedded:
  assumes "starts_with J (js ''{'')" and "ends_with J (js ''}'')" and "96 \<notin> set (P @ J @ S)"
    and "123 \<notin> set P" and "125 \<notin> set S"
  shows "extractJson (P @ J @ S) = J"
proof -
  from braces [OF assms(1,2)] obtain M where j: "J = 123 # M @ [125]" by blast
  have 1: "strip_fences (strip_json_fences (P @ J @ S)) = P @ J @ S"
    using assms(3) by (simp add: strip_json_fences_plain strip_fences_plain)
  have 2: "trim (P @ J @ S) = dropWhile is_ws P @ 123 # M @ 125 # rev (dropWhile is_ws (rev S))"
    using trim_core [OF not_ws_marks(2,3), of P M S] unfolding j by simp
  have a: "123 \<notin> set (dropWhile is_ws P)"
    using assms(4) set_dropWhileD by fast
  have b: "125 \<notin> set (rev (dropWhile is_ws (rev S)))"
    using assms(5) set_dropWhileD [of 125 is_ws "rev S"] by auto
  have "trim (strip_fences (strip_json_fences (P @ J @ S)))
      = dropWhile is_ws P @ 123 # M @ 125 # rev (dropWhile is_ws (rev S))"
    unfolding 1 2 ..
  from extractJson_span [OF this a b] show ?thesis unfolding j .
qed

lemma wire_reply_photo:
  assumes "fieldname f = js ''photo''"
  shows "wire_reply (post_estimate emsg env (Form [f]))
     = (status (response (estimate_handler emsg env \<lparr> file_path = Some (path f) \<rparr>)),
        Some (body (response (estimate_handler emsg env \<lparr> file_path = Some (path f) \<rparr>))))"
  using assms by (simp add: wire_reply_post_estimate upload_single_cases)

text \<open>
  Claim C9, amended. \<^verbatim>\<open>extractJson\<close> removes the code fences and trims; when what is left has an
  object \<open>J\<close> (a text from \<^verbatim>\<open>{\<close> to \<^verbatim>\<open>}\<close>) with no \<^verbatim>\<open>{\<close> before it and no \<^verbatim>\<open>}\<close> after it, the result
  is \<open>J\<close>. So an object without backquotes that is wrapped in a \<^verbatim>\<open>json\<close> fence gives that object,
  and so does an object inside prose that has no backquote, no \<^verbatim>\<open>{\<close> before the object and
  no \<^verbatim>\<open>}\<close> after it. The route answers 500 "Model did not return JSON" only when the text
  that \<^verbatim>\<open>extractJson\<close> gives does not parse; when it parses, the answer is built from the
  parsed value.
\<close>

theorem extractJson_finds_object:
  assumes "starts_with J (js ''{'')" and "ends_with J (js ''}'')"
  shows "(\<forall>A B. trim (strip_fences (strip_json_fences text)) = A @ J @ B
            \<and> 123 \<notin> set A \<and> 125 \<notin> set B \<longrightarrow> extractJson text = J)
     \<and> (96 \<notin> set J \<and> map lower tag = js ''json'' \<and> (\<forall>c \<in> set (w1 @ w2 @ w3). is_ws c)
          \<longrightarrow> extractJson ([96, 96, 96] @ tag @ w1 @ J @ w2 @ [96, 96, 96] @ w3) = J)
     \<and> (96 \<notin> set (P @ J @ S) \<and> 123 \<notin> set P \<and> 125 \<notin> set S
          \<longrightarrow> extractJson (P @ J @ S) = J)
     \<and> (wire_reply (post_estimate emsg env w)
            = (500, Some (JObj [(js ''error'', JStr (js ''Model did not return JSON'')),
                                (js ''raw'', JStr raw)]))
          \<longrightarrow> JSON_parse (extractJson raw) = None)
     \<and> (w = Form [f] \<and> fieldname f = js ''photo'' \<and> read_file env (path f) = Inr bytes
          \<and> model_reply env bytes = Inr ot \<and> extractJson (raw_text ot) = J
          \<and> JSON_parse J = Some parsed
          \<longrightarrow> wire_reply (post_estimate emsg env w)
              = (case build_out parsed of
                   Inr out \<Rightarrow> (200, Some out)
                 | Inl e \<Rightarrow> (500, Some (body (server_error emsg e)))))"
proof -
  from braces [OF assms] obtain M where j: "J = 123 # M @ [125]" by blast
  have 1: "\<forall>A B. trim (strip_fences (strip_json_fences text)) = A @ J @ B
            \<and> 123 \<notin> set A \<and> 125 \<notin> set B \<longrightarrow> extractJson text = J"
    using extractJson_span [of "text" _ M] unfolding j by simp
  have 2: "96 \<notin> set J \<and> map lower tag = js ''json'' \<and> (\<forall>c \<in> set (w1 @ w2 @ w3). is_ws c)
          \<longrightarrow> extractJson ([96, 96, 96] @ tag @ w1 @ J @ w2 @ [96, 96, 96] @ w3) = J"
    using extractJson_fenced [OF assms] by blast
  have 3: "96 \<notin> set (P @ J @ S) \<and> 123 \<notin> set P \<and> 125 \<notin> set S
          \<longrightarrow> extractJson (P @ J @ S) = J"
    using extractJson_embedded [OF assms] by blast
  have nj: "(500, Some (JObj [(js ''error'', JStr (js ''Model did not return JSON'')),
                            (js ''raw'', JStr raw)])) = (status (not_json raw), Some (body (not_json raw)))"
    by (simp add: not_json_def)
  have 4: "wire_reply (post_estimate emsg env w)
            = (500, Some (JObj [(js ''error'', JStr (js ''Model did not return JSON'')),
                                (js ''raw'', JStr raw)]))
          \<longrightarrow> JSON_parse (extractJson raw) = None"
    unfolding nj wire_reply_eq_iff response_not_json_iff by blast
  have 5: "w = Form [f] \<and> fieldname f = js ''photo'' \<and> read_file env (path f) = Inr bytes
          \<and> model_reply env bytes = Inr ot \<and> extractJson (raw_text ot) = J
          \<and> JSON_parse J = Some parsed
          \<longrightarrow> wire_reply (post_estimate emsg env w)
              = (case build_out parsed of
                   Inr out \<Rightarrow> (200, Some out)
                 | Inl e \<Rightarrow> (500, Some (body (server_error emsg e))))"
    by (auto simp: wire_reply_photo estimate_handler_response estimate_try_cases server_error_def
        split: sum.splits)
  from 1 2 3 4 5 show ?thesis by blast
qed

theorem extractJson_finds_object_witness:
  \<open>extractJson (js ''```json'' @ [10] @ js ''{"calories": 5}'' @ [10] @ js ''```'') = js ''{"calories": 5}''
   \<and> extractJson (js ''Sure: {"calories": 5} Enjoy.'') = js ''{"calories": 5}''
   \<and> wire_reply (post_estimate engine_messages (example_env (js ''Sure: {"calories": 5} Enjoy.'')) photo_form)
      = (200, Some (JObj [(js ''description'', JStr (js ''Food'')),
            (js ''calories'', JNum (Fin 5)), (js ''protein_g'', JNum (Fin 0))]))\<close>
proof -
  let ?J = \<open>js ''{"calories": 5}''\<close>
  let ?T = \<open>js ''Sure: {"calories": 5} Enjoy.''\<close>
  let ?f = "\<lparr> fieldname = js ''photo'', path = js ''uploads/3f2a'' \<rparr>"
  let ?p = "JObj [(js ''calories'', JNum (Fin 5))]"
  have s: "starts_with ?J (js ''{'')" "ends_with ?J (js ''}'')"
    by (simp_all add: starts_with_def ends_with_def)
  note t = extractJson_finds_object [OF s, of "[]" "js ''json''" "[10]" "[10]" "[]" "js ''Sure: ''" "js '' Enjoy.''"
      engine_messages "example_env ?T" photo_form "[]" ?f "[255, 216, 255]" "Some ?T" ?p]
  have a: "extractJson ([96, 96, 96] @ js ''json'' @ [10] @ ?J @ [10] @ [96, 96, 96] @ []) = ?J"
    using t [THEN conjunct2, THEN conjunct1] by (simp add: lower_def is_ws_def)
  have b: "extractJson (js ''Sure: '' @ ?J @ js '' Enjoy.'') = ?J"
    using t [THEN conjunct2, THEN conjunct2, THEN conjunct1] by simp
  have r: "raw_text (Some ?T) = ?T" by code_simp
  have p: "JSON_parse ?J = Some ?p" by code_simp
  have o: "build_out ?p = Inr (JObj [(js ''description'', JStr (js ''Food'')),
            (js ''calories'', JNum (Fin 5)), (js ''protein_g'', JNum (Fin 0))])"
    by code_simp
  have c: "wire_reply (post_estimate engine_messages (example_env ?T) photo_form)
      = (200, Some (JObj [(js ''description'', JStr (js ''Food'')),
            (js ''calories'', JNum (Fin 5)), (js ''protein_g'', JNum (Fin 0))]))"
    using t [THEN conjunct2, THEN conjunct2, THEN conjunct2, THEN conjunct2] b r p o
    by (simp add: photo_form_def example_env_def)
  from a b c show ?thesis by simp
qed

text \<open>
  Counterexample to C9 as stated. Each output holds the object \<^verbatim>\<open>{"calories": 5}\<close>, the first
  inside prose, the second inside a \<^verbatim>\<open>json\<close> fence with a remark behind it. The prose has
  braces of its own, so the span from the first \<^verbatim>\<open>{\<close> to the last \<^verbatim>\<open>}\<close> is not the object, and
  both are answered with 500 "Model did not return JSON".
\<close>

theorem extractJson_misled_by_braces_in_prose:
  \<open>JSON_parse (js ''{"calories": 5}'') = Some (JObj [(js ''calories'', JNum (Fin 5))])
   \<and> extractJson (js ''Plate {1}: {"calories": 5}'') = js ''{1}: {"calories": 5}''
   \<and> wire_reply (post_estimate engine_messages (example_env (js ''Plate {1}: {"calories": 5}'')) photo_form)
      = (500, Some (JObj [(js ''error'', JStr (js ''Model did not return JSON'')),
                          (js ''raw'', JStr (js ''Plate {1}: {"calories": 5}''))]))
   \<and> extractJson (js ''```json {"calories": 5} ``` in {kcal}'') = js ''{"calories": 5} in {kcal}''
   \<and> wire_reply (post_estimate engine_messages
          (example_env (js ''```json {"calories": 5} ``` in {kcal}'')) photo_form)
      = (500, Some (JObj [(js ''error'', JStr (js ''Model did not return JSON'')),
                          (js ''raw'', JStr (js ''```json {"calories": 5} ``` in {kcal}''))]))\<close>
  by code_simp

section \<open>Properties of estimating and loading\<close>

lemma estimateFromPhoto_caught:
  assumes "draftPhoto st = Some uri" and "uri \<noteq> []"
    and "estimate_try_client fetched (st\<lparr>estimateError := None, estimating := True\<rparr>)
           = Inl (e, st\<lparr>estimateError := None, estimating := True\<rparr>)"
  shows "estimateFromPhoto emsg fetched st
           = st\<lparr>estimateError := Some (or_else (message emsg e) fallback_message), estimating := False\<rparr>"
  using assms by (simp add: estimateFromPhoto_def)

lemma estimate_try_client_fails:
  assumes "(\<exists>e. fetched = Inl e)
      \<or> (\<exists>resp. fetched = Inr resp
            \<and> (\<not> (200 \<le> http_status resp \<and> http_status resp \<le> 299)
                \<or> JSON_parse (http_body resp) = None
                \<or> JSON_parse (http_body resp) = Some JNull))"
  shows "\<exists>e. estimate_try_client fetched s = Inl (e, s)"
  using assms by (auto simp: estimate_try_client_def get_prop_def)

text \<open>
  Claim C10. When the estimate fails (\<^verbatim>\<open>fetch\<close> rejects, the status is not 2xx, the body does
  not parse as JSON, or it parses to \<^verbatim>\<open>null\<close>), the state after \<^verbatim>\<open>estimateFromPhoto\<close> is the state
  before with an error message set and \<^verbatim>\<open>estimating\<close> false: description, calories text,
  protein text and photo of the draft, the ledger and the store writes are as before. (A
  2xx response whose fields cannot be converted is not among these failures: the
  conversions run after \<^verbatim>\<open>setDesc\<close>.)
\<close>

theorem estimateFromPhoto_failure_keeps_draft:
  assumes "draftPhoto st = Some uri" and "uri \<noteq> []"
    and "(\<exists>e. fetched = Inl e)
      \<or> (\<exists>resp. fetched = Inr resp
            \<and> (\<not> (200 \<le> http_status resp \<and> http_status resp \<le> 299)
                \<or> JSON_parse (http_body resp) = None
                \<or> JSON_parse (http_body resp) = Some JNull))"
  shows "(\<exists>msg. estimateFromPhoto emsg fetched st = st\<lparr>estimateError := Some msg, estimating := False\<rparr>)
     \<and> desc (estimateFromPhoto emsg fetched st) = desc st
     \<and> calText (estimateFromPhoto emsg fetched st) = calText st
     \<and> protText (estimateFromPhoto emsg fetched st) = protText st
     \<and> draftPhoto (estimateFromPhoto emsg fetched st) = draftPhoto st
     \<and> meals (estimateFromPhoto emsg fetched st) = meals st
     \<and> writes (estimateFromPhoto emsg fetched st) = writes st
     \<and> estimateError (estimateFromPhoto emsg fetched st) \<noteq> None"
proof -
  from estimate_try_client_fails [OF assms(3)] obtain e where
    "estimate_try_client fetched (st\<lparr>estimateError := None, estimating := True\<rparr>)
       = Inl (e, st\<lparr>estimateError := None, estimating := True\<rparr>)"
    by blast
  from estimateFromPhoto_caught [OF assms(1,2) this]
  have r: "estimateFromPhoto emsg fetched st
      = st\<lparr>estimateError := Some (or_else (message emsg e) fallback_message), estimating := False\<rparr>" .
  then have "\<exists>msg. estimateFromPhoto emsg fetched st = st\<lparr>estimateError := Some msg, estimating := False\<rparr>"
    by blast
  with r show ?thesis by simp
qed

theorem estimateFromPhoto_failure_keeps_draft_witness:
  "desc (estimateFromPhoto engine_messages
           (Inr \<lparr> http_status = 500, http_body = js ''upstream down'' \<rparr>) soup_draft) = JStr (js ''Soup'')
   \<and> calText (estimateFromPhoto engine_messages
           (Inr \<lparr> http_status = 500, http_body = js ''upstream down'' \<rparr>) soup_draft) = js ''650''
   \<and> protText (estimateFromPhoto engine_messages
           (Inr \<lparr> http_status = 500, http_body = js ''upstream down'' \<rparr>) soup_draft) = js ''40''
   \<and> meals (estimateFromPhoto engine_messages
           (Inr \<lparr> http_status = 500, http_body = js ''upstream down'' \<rparr>) soup_draft) = []
   \<and> estimateError (estimateFromPhoto engine_messages
           (Inr \<lparr> http_status = 500, http_body = js ''upstream down'' \<rparr>) soup_draft) \<noteq> None"
proof -
  let ?f = "Inr \<lparr> http_status = 500, http_body = js ''upstream down'' \<rparr> :: js_error + http_response"
  have p: "draftPhoto soup_draft = Some (js ''file:///photo.jpg'')" "js ''file:///photo.jpg'' \<noteq> []"
    by (simp_all add: soup_draft_def)
  have f: "(\<exists>e. ?f = Inl e)
      \<or> (\<exists>resp. ?f = Inr resp
            \<and> (\<not> (200 \<le> http_status resp \<and> http_status resp \<le> 299)
                \<or> JSON_parse (http_body resp) = None
                \<or> JSON_parse (http_body resp) = Some JNull))"
    by simp
  from estimateFromPhoto_failure_keeps_draft [OF p f, of engine_messages]
  show ?thesis by (simp add: soup_draft_def openModal_def initial_state_def)
qed

lemma load_blank: "load None = Inr (JArr [])" "load (Some []) = Inr (JArr [])"
  by (simp_all add: load_def)

text \<open>
  Claim C2, amended. \<^verbatim>\<open>load\<close> gives the empty sequence when the key has no entry or the empty
  text. Stored text that is not JSON makes \<^verbatim>\<open>JSON.parse\<close> raise a \<^verbatim>\<open>SyntaxError\<close>, which nothing
  catches: the effect ends with the exception, and the ledger keeps the empty value it
  started with. Stored text that is JSON is handed to \<^verbatim>\<open>setMeals\<close> as parsed, whatever its
  shape.
\<close>

theorem load_cases:
  "load None = Inr (JArr []) \<and> load (Some []) = Inr (JArr [])
   \<and> (s \<noteq> [] \<and> JSON_parse s = None \<longrightarrow>
        load (Some s) = Inl SyntaxError \<and> ledger_after_load (Some s) = JArr [])
   \<and> (s \<noteq> [] \<and> JSON_parse s = Some v \<longrightarrow>
        load (Some s) = Inr v \<and> ledger_after_load (Some s) = v)"
  by (simp add: load_def ledger_after_load_def)

theorem load_cases_witness:
  \<open>load (Some (js ''[{"id":"m8w9w340.i","ts":1743377400000,"description":"Meal","calories":650,"protein_g":40}]''))
     = Inr (JArr [JObj [(js ''id'', JStr (js ''m8w9w340.i'')), (js ''ts'', JNum (Fin 1743377400000)),
                        (js ''description'', JStr (js ''Meal'')), (js ''calories'', JNum (Fin 650)),
                        (js ''protein_g'', JNum (Fin 40))]])
   \<and> ledger_after_load (Some (js ''{"calories":'')) = JArr []\<close>
proof -
  let ?a = \<open>js ''[{"id":"m8w9w340.i","ts":1743377400000,"description":"Meal","calories":650,"protein_g":40}]''\<close>
  let ?v = "JArr [JObj [(js ''id'', JStr (js ''m8w9w340.i'')), (js ''ts'', JNum (Fin 1743377400000)),
                        (js ''description'', JStr (js ''Meal'')), (js ''calories'', JNum (Fin 650)),
                        (js ''protein_g'', JNum (Fin 40))]]"
  let ?b = \<open>js ''{"calories":''\<close>
  have a: "?a \<noteq> [] \<and> JSON_parse ?a = Some ?v" by code_simp
  have b: "?b \<noteq> [] \<and> JSON_parse ?b = None" by code_simp
  from load_cases [of ?a ?v] a have "load (Some ?a) = Inr ?v" by blast
  moreover from load_cases [of ?b ?v] b have "ledger_after_load (Some ?b) = JArr []" by blast
  ultimately show ?thesis by blast
qed

text \<open>
  Counterexample to C2 as stated. Stored text that is JSON but no sequence of meals is
  not turned into the empty sequence: the ledger becomes the object. Stored text that is
  no JSON ends the effect with the exception.
\<close>

theorem load_keeps_wrong_shape_and_raises:
  \<open>load (Some (js ''{"meals":[]}'')) = Inr (JObj [(js ''meals'', JArr [])])
   \<and> ledger_after_load (Some (js ''{"meals":[]}'')) = JObj [(js ''meals'', JArr [])]
   \<and> load (Some (js ''{"calories":'')) = Inl SyntaxError\<close>
  by code_simp









end
